theory Spec2Isabelle
  imports Main
begin

unbundle bit_operations_syntax

section \<open>Python values used by the archive reader\<close>

text \<open>
  A Python \<open>bytes\<close> object is a list of bytes; HOL's \<open>char\<close> is exactly one byte.
  A Python \<open>str\<close> obtained by \<open>bytes.decode("utf-8")\<close> is represented by its UTF-8
  encoding, so it is a \<open>string\<close> as well: the representation is one-to-one on the strings
  that a strict decode can return, and the operations the reader applies to names
  (\<open>rstrip(" ")\<close>, \<open>endswith("/")\<close>, \<open>startswith("/")\<close>, \<open>[:-1]\<close>, \<open>[1:]\<close>, equality, use
  as a dictionary key) only look at the ASCII characters space and slash, which are single
  bytes that never occur inside a multi-byte sequence. Python integers are unbounded: \<open>int\<close>.
\<close>

type_synonym bytes = "char list"

text \<open>
  Exceptions are values. Each exception class keeps what the source puts into its message
  as a payload instead of the formatted text.
\<close>

datatype stream_fault =
    InsufficientData int  \<comment> \<open>"Insufficient data in buffer to return {length} bytes"\<close>
  | NoMoreToRead          \<comment> \<open>"Unable to read from buffer - no more to read"\<close>
  | CStringEndNotFound    \<comment> \<open>"End of C String not found within the buffer"\<close>

datatype archive_fault =
    BadMagic bytes                 \<comment> \<open>"Bad magic number: {repr(magic)}"\<close>
  | FirstMemberNamed string        \<comment> \<open>"First member is unexpectedly named {name}"\<close>
  | NoFilenameLookupMember string  \<comment> \<open>"Member's filename ({filename}) references nonexistent ..."\<close>
  | UnexpectedFilenameFormat string\<comment> \<open>"Filename has unexpected format: ..."\<close>
  | FilenameTwice string           \<comment> \<open>"Filename appears in archive twice: ..."\<close>
  | SymbolInMultipleMembers        \<comment> \<open>"Oop, I guess this library needs to support symbols ..."\<close>

datatype error =
    BufferStreamIndexError stream_fault  \<comment> \<open>class of parse.py\<close>
  | ArchiveReadException archive_fault   \<comment> \<open>class of ar.py\<close>
  | IndexError                           \<comment> \<open>built-in: index out of range\<close>
  | KeyError int                         \<comment> \<open>built-in: missing dictionary key, the key as payload\<close>
  | ValueError string                    \<comment> \<open>built-in: \<open>int()\<close> refused the text\<close>
  | UnicodeDecodeError                   \<comment> \<open>built-in: \<open>decode("utf-8")\<close> refused the bytes\<close>
  | NameError string                     \<comment> \<open>built-in: the name is not defined\<close>
  | AssertionError

fun bind :: "error + 'a \<Rightarrow> ('a \<Rightarrow> error + 'b) \<Rightarrow> error + 'b" where
  "bind (Inl e) f = Inl e"
| "bind (Inr x) f = f x"

subsection \<open>Indexing and slicing\<close>

text \<open>
  \<open>xs[i]\<close>: a negative index counts from the end, anything outside \<open>-len .. len-1\<close>
  raises IndexError.
\<close>

definition py_index :: "'a list \<Rightarrow> int \<Rightarrow> error + 'a" where
  "py_index xs i =
     (let n = int (length xs) in
      if 0 \<le> i \<and> i < n then Inr (xs ! nat i)
      else if - n \<le> i \<and> i < 0 then Inr (xs ! nat (n + i))
      else Inl IndexError)"

text \<open>
  \<open>xs[i:j]\<close>: a negative bound counts from the end, both bounds are clamped to
  \<open>0 .. len\<close>, and the slice is empty when the bounds cross. It never raises.
\<close>

definition slice_bound :: "nat \<Rightarrow> int \<Rightarrow> nat" where
  "slice_bound n i = (if i < 0 then nat (max 0 (int n + i)) else min (nat i) n)"

definition py_slice :: "'a list \<Rightarrow> int \<Rightarrow> int \<Rightarrow> 'a list" where
  "py_slice xs i j =
     (let a = slice_bound (length xs) i; b = slice_bound (length xs) j
      in take (b - a) (drop a xs))"

subsection \<open>Strict UTF-8\<close>

text \<open>
  \<open>bytes.decode("utf-8")\<close> accepts exactly the well-formed byte sequences: no stray or
  missing continuation byte, no overlong form, no surrogate, nothing above U+10FFFF.
\<close>

definition byte_in :: "char \<Rightarrow> nat \<Rightarrow> nat \<Rightarrow> bool" where
  "byte_in c lo hi = (lo \<le> (of_char c :: nat) \<and> (of_char c :: nat) \<le> hi)"

fun utf8_valid :: "bytes \<Rightarrow> bool" where
  "utf8_valid [] = True"
| "utf8_valid [a] = byte_in a 0x00 0x7F"
| "utf8_valid [a, b] =
     (if byte_in a 0x00 0x7F then utf8_valid [b]
      else byte_in a 0xC2 0xDF \<and> byte_in b 0x80 0xBF)"
| "utf8_valid [a, b, c] =
     (if byte_in a 0x00 0x7F then utf8_valid [b, c]
      else if byte_in a 0xC2 0xDF then byte_in b 0x80 0xBF \<and> utf8_valid [c]
      else (byte_in a 0xE0 0xE0 \<and> byte_in b 0xA0 0xBF
            \<or> byte_in a 0xE1 0xEC \<and> byte_in b 0x80 0xBF
            \<or> byte_in a 0xED 0xED \<and> byte_in b 0x80 0x9F
            \<or> byte_in a 0xEE 0xEF \<and> byte_in b 0x80 0xBF) \<and> byte_in c 0x80 0xBF)"
| "utf8_valid (a # b # c # d # r) =
     (if byte_in a 0x00 0x7F then utf8_valid (b # c # d # r)
      else if byte_in a 0xC2 0xDF then byte_in b 0x80 0xBF \<and> utf8_valid (c # d # r)
      else if byte_in a 0xE0 0xEF then
        (byte_in a 0xE0 0xE0 \<and> byte_in b 0xA0 0xBF
         \<or> byte_in a 0xE1 0xEC \<and> byte_in b 0x80 0xBF
         \<or> byte_in a 0xED 0xED \<and> byte_in b 0x80 0x9F
         \<or> byte_in a 0xEE 0xEF \<and> byte_in b 0x80 0xBF) \<and> byte_in c 0x80 0xBF
        \<and> utf8_valid (d # r)
      else (byte_in a 0xF0 0xF0 \<and> byte_in b 0x90 0xBF
            \<or> byte_in a 0xF1 0xF3 \<and> byte_in b 0x80 0xBF
            \<or> byte_in a 0xF4 0xF4 \<and> byte_in b 0x80 0x8F)
           \<and> byte_in c 0x80 0xBF \<and> byte_in d 0x80 0xBF \<and> utf8_valid r)"

definition decode_utf8 :: "bytes \<Rightarrow> error + string" where
  "decode_utf8 bs = (if utf8_valid bs then Inr bs else Inl UnicodeDecodeError)"

text \<open>\<open>s.rstrip(" ")\<close>: drop the trailing spaces.\<close>

definition rstrip_space :: "string \<Rightarrow> string" where
  "rstrip_space s = rev (dropWhile (\<lambda>c. c = CHR '' '') (rev s))"

section \<open>parse.py: BufferStream\<close>

record BufferStream =
  data :: bytes
  cursor :: int

definition more_to_read :: "BufferStream \<Rightarrow> bool" where
  "more_to_read s = (cursor s < int (length (data s)))"

definition seek :: "int option \<Rightarrow> BufferStream \<Rightarrow> BufferStream" where
  "seek position s = (case position of None \<Rightarrow> s | Some p \<Rightarrow> s\<lparr>cursor := p\<rparr>)"

definition new_cursor :: "BufferStream \<Rightarrow> int option \<Rightarrow> int" where
  "new_cursor s len = (case len of None \<Rightarrow> int (length (data s)) | Some n \<Rightarrow> cursor s + n)"

text \<open>
  Every read returns its value together with the stream as the call leaves it. A raised
  exception ends the call: no caller in the repository catches one, so the state a failed
  call leaves behind is not part of the model.
\<close>

definition read_bytes :: "int option \<Rightarrow> int option \<Rightarrow> BufferStream \<Rightarrow> error + (bytes \<times> BufferStream)" where
  "read_bytes len position s0 =
     (let s = seek position s0;
          nc = new_cursor s len;
          result = py_slice (data s) (cursor s) nc
      in if len \<noteq> None \<and> int (length result) \<noteq> the len
         then Inl (BufferStreamIndexError (InsufficientData (the len)))
         else Inr (result, s\<lparr>cursor := nc\<rparr>))"

definition read_ascii :: "int option \<Rightarrow> int option \<Rightarrow> BufferStream \<Rightarrow> error + (string \<times> BufferStream)" where
  "read_ascii len position s =
     bind (read_bytes len position s) (\<lambda>(bs, s').
     bind (decode_utf8 bs) (\<lambda>txt. Inr (txt, s')))"

text \<open>
  \<open>int(text)\<close> is Python's built-in, not code of the repository. It is a parameter
  \<open>int_of\<close> of every function that reaches it, so that nothing is assumed about it;
  \<open>py_int\<close> in the section on closed examples is its behaviour on ASCII text.
\<close>

definition read_ascii_integer ::
  "(string \<Rightarrow> error + int) \<Rightarrow> int option \<Rightarrow> int option \<Rightarrow> BufferStream \<Rightarrow> error + (int \<times> BufferStream)" where
  "read_ascii_integer int_of len position s =
     bind (read_ascii len position s) (\<lambda>(txt, s').
     bind (int_of txt) (\<lambda>n. Inr (n, s')))"

text \<open>util.py: \<open>result <<= 8; result |= byte\<close> for every byte, from 0.\<close>

definition parse_big_endian :: "bytes \<Rightarrow> int" where
  "parse_big_endian be_bytes = foldl (\<lambda>result byte. push_bit 8 result OR of_char byte) 0 be_bytes"

definition parse_little_endian :: "bytes \<Rightarrow> int" where
  "parse_little_endian le_bytes = parse_big_endian (rev le_bytes)"

definition read_big_endian_dword :: "int option \<Rightarrow> BufferStream \<Rightarrow> error + (int \<times> BufferStream)" where
  "read_big_endian_dword position s =
     bind (read_bytes (Some 4) position s) (\<lambda>(bs, s'). Inr (parse_big_endian bs, s'))"

text \<open>
  The scan of \<open>read_cstring\<close>:
  \<^verbatim>\<open>while self.data[string_end_offset] != 0:
    if string_end_offset > len(self.data): raise BufferStreamIndexError(...)
    string_end_offset += 1\<close>
  The subscript is evaluated first, so running off the end raises the built-in IndexError
  at \<open>string_end_offset = len(self.data)\<close>. The offset only grows and the subscript
  fails from \<open>len\<close> on, hence the loop always ends.
\<close>

function cstring_end :: "bytes \<Rightarrow> int \<Rightarrow> error + int" where
  "cstring_end d string_end_offset =
     (case py_index d string_end_offset of
        Inl e \<Rightarrow> Inl e
      | Inr b \<Rightarrow>
          if b \<noteq> CHR 0x00 then
            (if string_end_offset > int (length d)
             then Inl (BufferStreamIndexError CStringEndNotFound)
             else cstring_end d (string_end_offset + 1))
          else Inr string_end_offset)"
  by pat_completeness auto
termination
  by (relation "measure (\<lambda>(d, i). nat (int (length d) - i))")
     (auto simp: py_index_def Let_def split: if_splits)

definition read_cstring :: "int option \<Rightarrow> BufferStream \<Rightarrow> error + (string \<times> BufferStream)" where
  "read_cstring position s0 =
     (let s = seek position s0 in
      if \<not> more_to_read s then Inl (BufferStreamIndexError NoMoreToRead)
      else
        bind (cstring_end (data s) (cursor s)) (\<lambda>string_end_offset.
        bind (decode_utf8 (py_slice (data s) (cursor s) string_end_offset)) (\<lambda>result.
        Inr (result, s\<lparr>cursor := string_end_offset + 1\<rparr>))))"

text \<open>
  \<open>read_sub_stream\<close> has no check and no \<open>raise\<close>: it returns the new stream over the
  slice (cursor 0) and the parent stream with its cursor moved.
\<close>

definition read_sub_stream :: "int option \<Rightarrow> int option \<Rightarrow> BufferStream \<Rightarrow> BufferStream \<times> BufferStream" where
  "read_sub_stream len position s0 =
     (let s = seek position s0;
          nc = new_cursor s len
      in (\<lparr>data = py_slice (data s) (cursor s) nc, cursor = 0\<rparr>, s\<lparr>cursor := nc\<rparr>))"

definition clone :: "bool \<Rightarrow> BufferStream \<Rightarrow> BufferStream" where
  "clone reset_cursor s = (if \<not> reset_cursor then \<lparr>data = data s, cursor = cursor s\<rparr> else \<lparr>data = data s, cursor = 0\<rparr>)"

section \<open>ar.py: ArchiveReader\<close>

record Member =
  name :: string
  date :: int
  user_id :: string
  group_id :: string
  mode :: int
  size_m :: int
  content :: BufferStream

text \<open>The two dictionaries of an \<open>ArchiveReader\<close> instance.\<close>

record ArchiveReader =
  members :: "string \<rightharpoonup> Member"
  symbol_member_map :: "string \<rightharpoonup> string"

definition reset :: "ArchiveReader" where
  "reset = \<lparr>members = Map.empty, symbol_member_map = Map.empty\<rparr>"

text \<open>
  Every warning of ar.py is \<open>print(..., file = sys.stderr)\<close>. The module imports
  \<open>namedtuple\<close> and \<open>parse\<close> only (lines 2 and 4), so evaluating the argument
  \<open>sys.stderr\<close> raises NameError and nothing is printed.
\<close>

datatype warning =
    EndOfHeader bytes       \<comment> \<open>"Warning: End of header is ... instead of 0x600A"\<close>
  | PaddingNotNewline bytes \<comment> \<open>"Warning: Padding is ... instead of a newline char"\<close>
  | SecondIndexMissing      \<comment> \<open>"Warning: Second index appears to be missing"\<close>
  | ExtraFilenameLookup     \<comment> \<open>"Warning: Ignoring unexpected additional filename lookup member"\<close>

definition print_stderr :: "warning \<Rightarrow> error + unit" where
  "print_stderr w = Inl (NameError ''sys'')"

text \<open>
  Lines 70 to 88 of \<open>_read_member\<close>: the name field and its resolution.
  \<open>read_cstring\<close> moves the cursor of the filename member's content, so the filename
  member is returned as the call leaves it.
\<close>

definition read_filename ::
  "(string \<Rightarrow> error + int) \<Rightarrow> (string \<rightharpoonup> Member) \<Rightarrow> BufferStream \<Rightarrow> Member option
     \<Rightarrow> error + (string \<times> BufferStream \<times> Member option)" where
  "read_filename int_of ms data_stream filename_member =
     bind (read_ascii (Some 16) None data_stream) (\<lambda>(raw, ds).
     let filename = rstrip_space raw in
     if filename \<noteq> ''/'' \<and> filename \<noteq> ''//'' then
       bind (if filename \<noteq> [] \<and> last filename = CHR ''/'' then Inr (butlast filename, filename_member)
             else if filename \<noteq> [] \<and> hd filename = CHR ''/'' then
               bind (int_of (tl filename)) (\<lambda>filename_offset.
               case filename_member of
                 None \<Rightarrow> Inl (ArchiveReadException (NoFilenameLookupMember filename))
               | Some fm \<Rightarrow>
                   bind (read_cstring (Some filename_offset) (content fm)) (\<lambda>(resolved, c).
                   Inr (resolved, Some (fm\<lparr>content := c\<rparr>))))
             else Inl (ArchiveReadException (UnexpectedFilenameFormat filename)))
         (\<lambda>(filename, fm).
            if filename \<in> dom ms then Inl (ArchiveReadException (FilenameTwice filename))
            else Inr (filename, ds, fm))
     else Inr (filename, ds, filename_member))"

text \<open>
  \<open>_read_member\<close>. \<open>endHeader\<close> and \<open>padding\<close> come from exact reads of 2 bytes and
  1 byte, so their subscripts are in range.
\<close>

definition read_member ::
  "(string \<Rightarrow> error + int) \<Rightarrow> (string \<rightharpoonup> Member) \<Rightarrow> BufferStream \<Rightarrow> Member option
     \<Rightarrow> error + (Member \<times> BufferStream \<times> Member option)" where
  "read_member int_of ms data_stream filename_member =
     bind (read_filename int_of ms data_stream filename_member) (\<lambda>(filename, ds, fm).
     bind (read_ascii_integer int_of (Some 12) None ds) (\<lambda>(date_v, ds).
     bind (read_ascii (Some 6) None ds) (\<lambda>(user_raw, ds).
     bind (read_ascii (Some 6) None ds) (\<lambda>(group_raw, ds).
     bind (read_ascii_integer int_of (Some 8) None ds) (\<lambda>(mode_v, ds).
     bind (read_ascii_integer int_of (Some 10) None ds) (\<lambda>(size_v, ds).
     bind (read_bytes (Some 2) None ds) (\<lambda>(endHeader, ds).
     bind (if endHeader ! 0 \<noteq> CHR 0x60 \<or> endHeader ! 1 \<noteq> CHR 0x0A
           then print_stderr (EndOfHeader endHeader) else Inr ()) (\<lambda>_.
     bind (if cursor ds mod 2 \<noteq> 0 then
             bind (read_bytes (Some 1) None ds) (\<lambda>(padding, ds).
             if length padding \<noteq> 1 then Inl AssertionError
             else bind (if padding ! 0 \<noteq> CHR 0x0A
                        then print_stderr (PaddingNotNewline padding) else Inr ()) (\<lambda>_. Inr ds))
           else Inr ds) (\<lambda>ds.
     let (content_v, ds) = read_sub_stream (Some size_v) None ds in
     Inr (\<lparr>name = filename, date = date_v, user_id = rstrip_space user_raw,
           group_id = rstrip_space group_raw, mode = mode_v, size_m = size_v,
           content = content_v\<rparr>, ds, fm))))))))))"

text \<open>
  Step 1 of \<open>load\<close>: the loop that catalogs the members. Its variables, with
  \<open>self.members\<close>, are the loop state. A \<open>size\<close> field may be negative and move the
  cursor backwards, so the loop need not end: not returning is the value \<open>None\<close>.
\<close>

record catalog_state =
  self_members :: "string \<rightharpoonup> Member"
  is_first_member_after_index :: bool
  member_name_by_offset :: "int \<rightharpoonup> string"
  filename_member :: "Member option"
  data_stream :: BufferStream

partial_function (option) catalog ::
  "(string \<Rightarrow> error + int) \<Rightarrow> catalog_state \<Rightarrow> (error + catalog_state) option" where
  "catalog int_of st =
     (if more_to_read (data_stream st) then
        (let file_offset = cursor (data_stream st) in
         case read_member int_of (self_members st) (data_stream st) (filename_member st) of
           Inl e \<Rightarrow> Some (Inl e)
         | Inr (member, ds, fm) \<Rightarrow>
             (let st = st\<lparr>data_stream := ds, filename_member := fm\<rparr> in
              if is_first_member_after_index st \<and> name member = ''/'' then
                catalog int_of (st\<lparr>is_first_member_after_index := False\<rparr>)
              else
                case (if is_first_member_after_index st
                      then print_stderr SecondIndexMissing else Inr ()) of
                  Inl e \<Rightarrow> Some (Inl e)
                | Inr _ \<Rightarrow>
                    (let st = st\<lparr>is_first_member_after_index := False\<rparr> in
                     if name member = ''//'' then
                       (if filename_member st = None then
                          catalog int_of (st\<lparr>filename_member := Some member\<rparr>)
                        else
                          case print_stderr ExtraFilenameLookup of
                            Inl e \<Rightarrow> Some (Inl e)
                          | Inr _ \<Rightarrow> catalog int_of st)
                     else
                       catalog int_of
                         (st\<lparr>member_name_by_offset := (member_name_by_offset st)(file_offset \<mapsto> name member),
                             self_members := (self_members st)(name member \<mapsto> member)\<rparr>))))
      else Some (Inr st))"

text \<open>
  Step 2 of \<open>load\<close>: the loop over the offsets of the index. Each round reads four
  bytes of \<open>member_offset_stream\<close> or raises, so it ends.
\<close>

function symbol_loop ::
  "(int \<rightharpoonup> string) \<Rightarrow> BufferStream \<Rightarrow> BufferStream \<Rightarrow> (string \<rightharpoonup> string)
     \<Rightarrow> error + (string \<rightharpoonup> string)" where
  "symbol_loop tbl member_offset_stream symbol_name_stream smm =
     (if more_to_read member_offset_stream then
        case read_big_endian_dword None member_offset_stream of
          Inl e \<Rightarrow> Inl e
        | Inr (member_offset, mos) \<Rightarrow>
            (case read_cstring None symbol_name_stream of
               Inl e \<Rightarrow> Inl e
             | Inr (symbol_name, sns) \<Rightarrow>
                 (case tbl member_offset of
                    None \<Rightarrow> Inl (KeyError member_offset)
                  | Some member_name \<Rightarrow>
                      if symbol_name \<in> dom smm
                      then Inl (ArchiveReadException SymbolInMultipleMembers)
                      else symbol_loop tbl mos sns (smm(symbol_name \<mapsto> member_name))))
      else Inr smm)"
  by pat_completeness auto
termination
  by (relation "measure (\<lambda>(tbl, mos, sns, smm). nat (int (length (data mos)) - cursor mos))")
     (auto simp: more_to_read_def read_big_endian_dword_def read_bytes_def seek_def
        new_cursor_def Let_def split: if_splits)

definition parse_index ::
  "BufferStream \<Rightarrow> (int \<rightharpoonup> string) \<Rightarrow> (string \<rightharpoonup> string) \<Rightarrow> error + (string \<rightharpoonup> string)" where
  "parse_index index_content tbl smm =
     bind (read_big_endian_dword None index_content) (\<lambda>(symbol_count, c).
     let (member_offset_stream, c) = read_sub_stream (Some (4 * symbol_count)) None c;
         (symbol_name_stream, c) = read_sub_stream None None c
     in symbol_loop tbl member_offset_stream symbol_name_stream smm)"

text \<open>
  \<open>load\<close> on a reader in state \<open>self\<close>. It does not call \<open>reset\<close>: it starts from the
  dictionaries the reader holds.
\<close>

definition load ::
  "(string \<Rightarrow> error + int) \<Rightarrow> ArchiveReader \<Rightarrow> bytes \<Rightarrow> (error + ArchiveReader) option" where
  "load int_of self d =
     (case read_bytes (Some 8) None \<lparr>data = d, cursor = 0\<rparr> of
        Inl e \<Rightarrow> Some (Inl e)
      | Inr (magic, ds) \<Rightarrow>
          if magic \<noteq> ''!<arch>'' @ [CHR 0x0A]
          then Some (Inl (ArchiveReadException (BadMagic magic)))
          else
            (case read_member int_of (members self) ds None of
               Inl e \<Rightarrow> Some (Inl e)
             | Inr (index_member, ds, fm) \<Rightarrow>
                 if name index_member \<noteq> ''/''
                 then Some (Inl (ArchiveReadException (FirstMemberNamed (name index_member))))
                 else
                   (case catalog int_of
                          \<lparr>self_members = members self, is_first_member_after_index = True,
                           member_name_by_offset = Map.empty, filename_member = None,
                           data_stream = ds\<rparr> of
                      None \<Rightarrow> None
                    | Some r \<Rightarrow>
                        Some (bind r (\<lambda>st.
                              bind (parse_index (content index_member) (member_name_by_offset st)
                                      (symbol_member_map self)) (\<lambda>smm.
                              Inr \<lparr>members = self_members st, symbol_member_map = smm\<rparr>))))))"

text \<open>\<open>ArchiveReader(data)\<close>: \<open>__init__\<close> resets, then loads.\<close>

definition init :: "(string \<Rightarrow> error + int) \<Rightarrow> bytes \<Rightarrow> (error + ArchiveReader) option" where
  "init int_of d = load int_of reset d"

section \<open>Closed examples: Python's int on ASCII text, archive fixtures\<close>

text \<open>
  \<open>int(text)\<close> for ASCII text, base 10: the whitespace of C's \<open>isspace\<close> (tab to
  carriage return, and space) is dropped at both ends, one sign is allowed, then decimal
  digits, single underscores allowed between two digits. Anything else raises ValueError.
  Text with a character outside ASCII is outside \<open>py_int\<close>: there Python also accepts
  other decimal digits and spaces. \<open>py_int\<close> is applied to ASCII text only, in the closed
  examples; every general theorem takes \<open>int_of\<close> as a parameter.
\<close>

definition is_space :: "char \<Rightarrow> bool" where
  "is_space c = (byte_in c 0x09 0x0D \<or> c = CHR '' '')"

definition is_digit :: "char \<Rightarrow> bool" where
  "is_digit c = byte_in c 0x30 0x39"

definition digit_value :: "char \<Rightarrow> int" where
  "digit_value c = of_char c - 0x30"

fun dec_digits :: "string \<Rightarrow> int \<Rightarrow> int option" where
  "dec_digits [] acc = Some acc"
| "dec_digits [c] acc = (if is_digit c then Some (10 * acc + digit_value c) else None)"
| "dec_digits (c # d # r) acc =
     (if is_digit c then dec_digits (d # r) (10 * acc + digit_value c)
      else if c = CHR ''_'' \<and> is_digit d then dec_digits r (10 * acc + digit_value d)
      else None)"

definition py_int :: "string \<Rightarrow> error + int" where
  "py_int txt =
     (let t = rev (dropWhile is_space (rev (dropWhile is_space txt)));
          negative = (t \<noteq> [] \<and> hd t = CHR ''-'');
          body = (if t \<noteq> [] \<and> (hd t = CHR ''-'' \<or> hd t = CHR ''+'') then tl t else t)
      in if body \<noteq> [] \<and> is_digit (hd body) then
           (case dec_digits (tl body) (digit_value (hd body)) of
              None \<Rightarrow> Inl (ValueError txt)
            | Some n \<Rightarrow> Inr (if negative then - n else n))
         else Inl (ValueError txt))"

text \<open>
  A member header as archivers write it: every field left-justified and padded with
  spaces, then the terminator \<open>0x60 0x0A\<close>. Date, ids and mode are not looked at by the
  reader beyond parsing; the fixtures use date 0, empty ids and mode 0.
\<close>

definition ljust :: "nat \<Rightarrow> string \<Rightarrow> string" where
  "ljust n s = s @ replicate (n - length s) CHR '' ''"

definition header :: "string \<Rightarrow> string \<Rightarrow> bytes" where
  "header nm sz = ljust 16 nm @ ljust 12 ''0'' @ ljust 6 [] @ ljust 6 [] @ ljust 8 ''0''
                  @ ljust 10 sz @ [CHR 0x60, CHR 0x0A]"

definition magic_bytes :: bytes where
  "magic_bytes = ''!<arch>'' @ [CHR 0x0A]"

definition header_with :: "string \<Rightarrow> string \<Rightarrow> bytes \<Rightarrow> bytes" where
  "header_with nm sz terminator = ljust 16 nm @ ljust 12 ''0'' @ ljust 6 [] @ ljust 6 [] @ ljust 8 ''0''
                  @ ljust 10 sz @ terminator"

text \<open>
  \<open>archive_ok\<close>: the symbol index (one symbol, \<open>sym\<close>, at header offset 140 = 0x8C), the
  second index, and the member \<open>a.obj\<close> whose header starts at byte 140.
\<close>

definition archive_ok :: bytes where
  "archive_ok =
     magic_bytes @ header ''/'' ''12'' @ [CHR 0x00, CHR 0x00, CHR 0x00, CHR 0x01, CHR 0x00, CHR 0x00, CHR 0x00, CHR 0x8C]
       @ ''sym'' @ [CHR 0x00]
     @ header ''/'' ''0''
     @ header ''a.obj/'' ''2'' @ ''AA''"

text \<open>
  \<open>archive_odd\<close>: both indexes, \<open>a.obj\<close> of size 1 followed by its newline pad byte, then
  \<open>b.obj\<close>, whose header starts on the even offset 194.
\<close>

definition archive_odd :: bytes where
  "archive_odd =
     magic_bytes @ header ''/'' ''4'' @ [CHR 0x00, CHR 0x00, CHR 0x00, CHR 0x00]
     @ header ''/'' ''0''
     @ header ''a.obj/'' ''1'' @ ''A'' @ [CHR 0x0A]
     @ header ''b.obj/'' ''2'' @ ''BB''"

text \<open>
  One archive for each anomaly: no second index; a header terminator other than
  \<open>0x60 0x0A\<close>; a pad byte other than newline where the reader looks for one (after a
  header that ends on an odd offset); a second \<open>//\<close> member.
\<close>

definition archive_no_second_index :: bytes where
  "archive_no_second_index =
     magic_bytes @ header ''/'' ''4'' @ [CHR 0x00, CHR 0x00, CHR 0x00, CHR 0x00]
     @ header ''a.obj/'' ''2'' @ ''AA''"

definition archive_bad_terminator :: bytes where
  "archive_bad_terminator =
     magic_bytes @ header_with ''/'' ''0'' ''xx''"

definition archive_bad_padding :: bytes where
  "archive_bad_padding =
     magic_bytes @ header ''/'' ''5'' @ [CHR 0x00, CHR 0x00, CHR 0x00, CHR 0x00, CHR 0x00]
     @ header ''/'' ''0'' @ ''X''"

definition archive_two_lookups :: bytes where
  "archive_two_lookups =
     magic_bytes @ header ''/'' ''4'' @ [CHR 0x00, CHR 0x00, CHR 0x00, CHR 0x00]
     @ header ''/'' ''0''
     @ header ''//'' ''0''
     @ header ''//'' ''0''"

text \<open>
  Two copies of \<open>archive_ok\<close> whose index names the offset 999 = 0x3E7, where no header
  starts: one with the symbol name terminated, one with the name \<open>symb\<close> running to the
  end of the index.
\<close>

definition archive_absent_offset :: bytes where
  "archive_absent_offset =
     magic_bytes @ header ''/'' ''12'' @ [CHR 0x00, CHR 0x00, CHR 0x00, CHR 0x01, CHR 0x00, CHR 0x00, CHR 0x03, CHR 0xE7]
       @ ''sym'' @ [CHR 0x00]
     @ header ''/'' ''0''
     @ header ''a.obj/'' ''2'' @ ''AA''"

definition archive_no_terminator :: bytes where
  "archive_no_terminator =
     magic_bytes @ header ''/'' ''12'' @ [CHR 0x00, CHR 0x00, CHR 0x00, CHR 0x01, CHR 0x00, CHR 0x00, CHR 0x03, CHR 0xE7]
       @ ''symb''
     @ header ''/'' ''0''
     @ header ''a.obj/'' ''2'' @ ''AA''"

text \<open>
  The filename lookup member of the specification's example, and two headers whose name
  fields are \<open>/0\<close> and \<open>/8\<close>.
\<close>

definition names_table :: Member where
  "names_table =
     \<lparr>name = ''//'', date = 0, user_id = [], group_id = [], mode = 0, size_m = 16,
      content = \<lparr>data = ''foo.obj'' @ [CHR 0x00] @ ''bar.obj'' @ [CHR 0x00], cursor = 0\<rparr>\<rparr>"

definition by_offset_0 :: bytes where
  "by_offset_0 = header ''/0'' ''0''"

definition by_offset_8 :: bytes where
  "by_offset_8 = header ''/8'' ''0''"

text \<open>A member as the fixtures store it: date 0, empty ids, mode 0.\<close>

definition stored_member :: "string \<Rightarrow> bytes \<Rightarrow> Member" where
  "stored_member nm c =
     \<lparr>name = nm, date = 0, user_id = [], group_id = [], mode = 0, size_m = int (length c),
      content = \<lparr>data = c, cursor = 0\<rparr>\<rparr>"

definition archive_ok_reader :: ArchiveReader where
  "archive_ok_reader =
     \<lparr>members = [''a.obj'' \<mapsto> stored_member ''a.obj'' ''AA''],
      symbol_member_map = [''sym'' \<mapsto> ''a.obj'']\<rparr>"

section \<open>Notions used to state the claims\<close>

text \<open>
  The big-endian dwords a byte sequence starts with, four bytes each: what the loop of
  step 2 reads from \<open>member_offset_stream\<close>, one \<open>read_big_endian_dword\<close> per round.
\<close>

fun dwords :: "bytes \<Rightarrow> int list" where
  "dwords (a # b # c # d # r) = parse_big_endian [a, b, c, d] # dwords r"
| "dwords r = []"

text \<open>
  The invariant of the catalog loop: every name in the offset table is a key of
  \<open>self.members\<close>, and so is every name of a given set \<open>A\<close>.
\<close>

definition catalog_inv :: "string set \<Rightarrow> catalog_state \<Rightarrow> bool" where
  "catalog_inv A st =
     (ran (member_name_by_offset st) \<subseteq> dom (self_members st) \<and> A \<subseteq> dom (self_members st))"

section \<open>Evaluation set-up\<close>

text \<open>
  The recursive equations of the two terminating loops are unfolded on demand only.
  A call is evaluated from the inside: the continuation of \<open>bind\<close> is rewritten only
  once the first argument is a value.
\<close>

declare cstring_end.simps [simp del] symbol_loop.simps [simp del]

lemma bind_weak_cong [cong]: "m = m' \<Longrightarrow> bind m f = bind m' f"
  by simp

lemmas stream_defs =
  read_bytes_def seek_def new_cursor_def read_ascii_def decode_utf8_def byte_in_def
  read_ascii_integer_def read_sub_stream_def more_to_read_def read_big_endian_dword_def
  parse_big_endian_def read_cstring_def py_index_def py_slice_def slice_bound_def Let_def

text \<open>
  On a fixture, the root buffer stays folded: its slices and its length are proved once
  and used as rewrite rules.
\<close>

lemmas fixture_defs =
  read_bytes_def seek_def new_cursor_def read_ascii_def decode_utf8_def byte_in_def
  read_ascii_integer_def read_sub_stream_def more_to_read_def Let_def

lemmas member_defs = read_member_def read_filename_def rstrip_space_def print_stderr_def

section \<open>BufferStream: sub-streams\<close>

text \<open>
  C4. \<open>read_sub_stream(length)\<close> is claimed to return a view of exactly \<open>length\<close> bytes
  and to fail when fewer bytes remain. On the three-byte buffer \<open>abc\<close> at cursor 0,
  \<open>read_sub_stream(5)\<close> returns a view of the three bytes and leaves the parent cursor at
  5, past the end, without any error; \<open>read_bytes(5)\<close> on the same stream raises
  BufferStreamIndexError, which is the check the sub-stream read lacks.
\<close>

theorem read_sub_stream_short_view:
  "read_sub_stream (Some 5) None \<lparr>data = ''abc'', cursor = 0\<rparr>
     = (\<lparr>data = ''abc'', cursor = 0\<rparr>, \<lparr>data = ''abc'', cursor = 5\<rparr>)
   \<and> read_bytes (Some 5) None \<lparr>data = ''abc'', cursor = 0\<rparr>
     = Inl (BufferStreamIndexError (InsufficientData 5))"
  by (simp add: stream_defs cong: let_weak_cong)

section \<open>BufferStream: reading to the end\<close>

lemma slice_to_end:
  "py_slice xs c (int (length xs)) = drop (slice_bound (length xs) c) xs"
  by (simp add: py_slice_def slice_bound_def)

lemma slice_bound_nonneg: "0 \<le> c \<Longrightarrow> drop (slice_bound (length xs) c) xs = drop (nat c) xs"
  by (simp add: slice_bound_def min_def)

lemma read_bytes_to_end:
  "read_bytes None position s =
     Inr (py_slice (data s) (cursor (seek position s)) (int (length (data s))),
          \<lparr>data = data s, cursor = int (length (data s))\<rparr>)"
  by (cases s; cases position) (simp_all add: read_bytes_def seek_def new_cursor_def Let_def)

text \<open>
  C10, as stated, fails for \<open>read_ascii\<close>: with the length omitted it decodes whatever
  remains, and the single byte \<open>0xFF\<close> is not UTF-8, so the call raises
  UnicodeDecodeError.
\<close>

theorem read_ascii_to_end_counterexample:
  "read_ascii None None \<lparr>data = [CHR 0xFF], cursor = 0\<rparr> = Inl UnicodeDecodeError"
  by (simp add: stream_defs cong: let_weak_cong)

text \<open>
  C10, amended. With the length omitted, \<open>read_bytes\<close> never fails: it returns the slice
  \<open>data[cursor:len(data)]\<close> and leaves the cursor at the end of the buffer. \<open>read_ascii\<close>
  returns the same bytes as text with the cursor at the end when they are well-formed
  UTF-8, and raises UnicodeDecodeError otherwise. For a cursor that is not negative the
  slice is everything from the cursor on, and it is empty for a cursor at or past the end.
  (A negative cursor counts from the end, as Python slices do.)
\<close>

theorem read_to_end:
  "read_bytes None position s =
     Inr (py_slice (data s) (cursor (seek position s)) (int (length (data s))),
          \<lparr>data = data s, cursor = int (length (data s))\<rparr>)
   \<and> read_ascii None position s =
     (if utf8_valid (py_slice (data s) (cursor (seek position s)) (int (length (data s))))
      then Inr (py_slice (data s) (cursor (seek position s)) (int (length (data s))),
                \<lparr>data = data s, cursor = int (length (data s))\<rparr>)
      else Inl UnicodeDecodeError)
   \<and> (0 \<le> cursor (seek position s) \<longrightarrow>
        py_slice (data s) (cursor (seek position s)) (int (length (data s)))
          = drop (nat (cursor (seek position s))) (data s))
   \<and> (int (length (data s)) \<le> cursor (seek position s) \<longrightarrow>
        py_slice (data s) (cursor (seek position s)) (int (length (data s))) = [])"
proof (intro conjI impI)
  show "read_bytes None position s =
     Inr (py_slice (data s) (cursor (seek position s)) (int (length (data s))),
          \<lparr>data = data s, cursor = int (length (data s))\<rparr>)"
    by (rule read_bytes_to_end)
  show "read_ascii None position s =
     (if utf8_valid (py_slice (data s) (cursor (seek position s)) (int (length (data s))))
      then Inr (py_slice (data s) (cursor (seek position s)) (int (length (data s))),
                \<lparr>data = data s, cursor = int (length (data s))\<rparr>)
      else Inl UnicodeDecodeError)"
    by (simp add: read_ascii_def read_bytes_to_end decode_utf8_def)
  show "py_slice (data s) (cursor (seek position s)) (int (length (data s)))
          = drop (nat (cursor (seek position s))) (data s)"
    if "0 \<le> cursor (seek position s)"
    using that by (simp add: slice_to_end slice_bound_nonneg)
  show "py_slice (data s) (cursor (seek position s)) (int (length (data s))) = []"
    if "int (length (data s)) \<le> cursor (seek position s)"
    using that by (simp add: slice_to_end slice_bound_def)
qed

text \<open>The amended C10 at \<open>abc\<close>: from cursor 1, and after seeking past the end.\<close>

theorem read_to_end_witness:
  "0 \<le> cursor (seek None \<lparr>data = ''abc'', cursor = 1\<rparr>)
   \<and> read_bytes None None \<lparr>data = ''abc'', cursor = 1\<rparr> = Inr (''bc'', \<lparr>data = ''abc'', cursor = 3\<rparr>)
   \<and> read_ascii None None \<lparr>data = ''abc'', cursor = 1\<rparr> = Inr (''bc'', \<lparr>data = ''abc'', cursor = 3\<rparr>)
   \<and> int (length ''abc'') \<le> cursor (seek (Some 7) \<lparr>data = ''abc'', cursor = 1\<rparr>)
   \<and> read_bytes None (Some 7) \<lparr>data = ''abc'', cursor = 1\<rparr> = Inr ([], \<lparr>data = ''abc'', cursor = 3\<rparr>)"
  using read_to_end[of None "\<lparr>data = ''abc'', cursor = 1\<rparr>"]
        read_to_end[of "Some 7" "\<lparr>data = ''abc'', cursor = 1\<rparr>"]
  by (simp add: seek_def byte_in_def)

section \<open>BufferStream: C strings\<close>

lemma cstring_end_scan:
  "0 \<le> i \<Longrightarrow> i \<le> int (length d) \<Longrightarrow>
   cstring_end d i =
     (if CHR 0x00 \<in> set (drop (nat i) d)
      then Inr (i + int (length (takeWhile (\<lambda>b. b \<noteq> CHR 0x00) (drop (nat i) d))))
      else Inl IndexError)"
proof (induction d i rule: cstring_end.induct)
  case (1 d i)
  show ?case
  proof (cases "i < int (length d)")
    case False
    with 1 have "i = int (length d)" by simp
    then show ?thesis
      by (subst cstring_end.simps) (simp add: py_index_def)
  next
    case True
    with 1 have idx: "py_index d i = Inr (d ! nat i)" and lt: "nat i < length d"
      by (simp_all add: py_index_def)
    from lt have dr: "drop (nat i) d = d ! nat i # drop (Suc (nat i)) d"
      by (simp add: Cons_nth_drop_Suc)
    show ?thesis
    proof (cases "d ! nat i = CHR 0x00")
      case True
      then show ?thesis
        by (subst cstring_end.simps) (simp add: idx dr)
    next
      case False
      have step: "cstring_end d i = cstring_end d (i + 1)"
        using False True 1(2,3) by (subst cstring_end.simps) (simp add: idx)
      have "cstring_end d (i + 1) =
            (if CHR 0x00 \<in> set (drop (nat (i + 1)) d)
             then Inr (i + 1 + int (length (takeWhile (\<lambda>b. b \<noteq> CHR 0x00) (drop (nat (i + 1)) d))))
             else Inl IndexError)"
        using 1(1)[OF idx False] True 1(2,3) by simp
      moreover have "nat (i + 1) = Suc (nat i)" using 1(2) by simp
      ultimately show ?thesis
        using False by (simp add: step dr)
    qed
  qed
qed

lemma slice_takeWhile:
  assumes "0 \<le> c"
  shows "py_slice d c (c + int (length (takeWhile P (drop (nat c) d)))) = takeWhile P (drop (nat c) d)"
proof -
  let ?t = "takeWhile P (drop (nat c) d)"
  have len: "length ?t \<le> length d - nat c"
    using length_takeWhile_le[of P "drop (nat c) d"] by simp
  show ?thesis
  proof (cases "nat c \<le> length d")
    case True
    have a: "slice_bound (length d) c = nat c"
      using assms True by (simp add: slice_bound_def)
    have b: "slice_bound (length d) (c + int (length ?t)) = nat c + length ?t"
      using assms True len by (simp add: slice_bound_def nat_add_distrib)
    have "take (length ?t) (drop (nat c) d) = ?t"
      by (metis takeWhile_eq_take takeWhile_idem length_takeWhile_le take_all_iff takeWhile_dropWhile_id append_eq_conv_conj)
    then show ?thesis
      by (simp add: py_slice_def a b)
  next
    case False
    then show ?thesis
      using assms by (simp add: py_slice_def slice_bound_def)
  qed
qed

text \<open>
  C8, as stated, fails in its second half. In \<open>0xFF 0x00\<close> a zero byte occurs, yet
  \<open>read_cstring\<close> raises UnicodeDecodeError instead of returning text, because the byte
  before the terminator is not UTF-8. The claim also speaks of every cursor position:
  at cursor \<open>-2\<close> of \<open>A 0x00 B C\<close>, which Python reads as the position of \<open>B\<close>, no
  zero byte follows, yet the scan wraps around to the front and the call returns the
  empty string.
\<close>

theorem read_cstring_counterexample:
  "read_cstring None \<lparr>data = [CHR 0xFF, CHR 0x00], cursor = 0\<rparr> = Inl UnicodeDecodeError
   \<and> read_cstring None \<lparr>data = ''A'' @ [CHR 0x00] @ ''BC'', cursor = - 2\<rparr>
       = Inr ([], \<lparr>data = ''A'' @ [CHR 0x00] @ ''BC'', cursor = 2\<rparr>)"
  by (simp add: stream_defs cstring_end.simps cong: let_weak_cong)

text \<open>
  C8, amended. From a cursor that is not negative: if nothing remains, \<open>read_cstring\<close>
  raises BufferStreamIndexError; if no zero byte occurs in what remains, the scan runs
  off the end and raises IndexError; if a zero byte occurs and the bytes before the first
  one are well-formed UTF-8, it returns exactly these bytes as text and puts the cursor
  just past that zero byte; if they are not well-formed, it raises UnicodeDecodeError.
\<close>

theorem read_cstring_spec:
  assumes "0 \<le> cursor (seek position s)"
  shows "read_cstring position s =
     (let s' = seek position s;
          rest = drop (nat (cursor s')) (data s');
          txt = takeWhile (\<lambda>b. b \<noteq> CHR 0x00) rest
      in if rest = [] then Inl (BufferStreamIndexError NoMoreToRead)
         else if CHR 0x00 \<notin> set rest then Inl IndexError
         else if utf8_valid txt then Inr (txt, s'\<lparr>cursor := cursor s' + int (length txt) + 1\<rparr>)
         else Inl UnicodeDecodeError)"
proof -
  define s' where "s' = seek position s"
  define rest where "rest = drop (nat (cursor s')) (data s')"
  define str where "str = takeWhile (\<lambda>b. b \<noteq> CHR 0x00) rest"
  have c0: "0 \<le> cursor s'" using assms by (simp add: s'_def)
  have goal: "read_cstring position s =
      (if rest = [] then Inl (BufferStreamIndexError NoMoreToRead)
       else if CHR 0x00 \<notin> set rest then Inl IndexError
       else if utf8_valid str then Inr (str, s'\<lparr>cursor := cursor s' + int (length str) + 1\<rparr>)
       else Inl UnicodeDecodeError)"
  proof (cases "rest = []")
    case True
    then have "\<not> more_to_read s'"
      using c0 by (simp add: rest_def more_to_read_def)
    then have "read_cstring position s = Inl (BufferStreamIndexError NoMoreToRead)"
      by (simp add: read_cstring_def Let_def s'_def[symmetric])
    then show ?thesis using True by simp
  next
    case False
    then have more: "more_to_read s'" and le: "cursor s' \<le> int (length (data s'))"
      using c0 by (simp_all add: rest_def more_to_read_def)
    have scan: "cstring_end (data s') (cursor s') =
        (if CHR 0x00 \<in> set rest then Inr (cursor s' + int (length str)) else Inl IndexError)"
      using cstring_end_scan[OF c0 le] by (simp add: rest_def str_def)
    have sl: "py_slice (data s') (cursor s') (cursor s' + int (length str)) = str"
      unfolding str_def rest_def by (rule slice_takeWhile[OF c0])
    have "read_cstring position s =
       (if CHR 0x00 \<notin> set rest then Inl IndexError
        else if utf8_valid str then Inr (str, s'\<lparr>cursor := cursor s' + int (length str) + 1\<rparr>)
        else Inl UnicodeDecodeError)"
      using more
      by (simp add: read_cstring_def Let_def s'_def[symmetric] scan sl decode_utf8_def)
    then show ?thesis using False by simp
  qed
  show ?thesis
    unfolding Let_def s'_def[symmetric] rest_def[symmetric] str_def[symmetric]
    by (rule goal)
qed

text \<open>
  The amended C8 on the name table \<open>foo.obj 0x00 bar.obj 0x00\<close> at offset 8, and on
  \<open>abc\<close>, which has no terminator.
\<close>

theorem read_cstring_spec_witness:
  "0 \<le> cursor (seek (Some 8) \<lparr>data = ''foo.obj'' @ [CHR 0x00] @ ''bar.obj'' @ [CHR 0x00], cursor = 0\<rparr>)
   \<and> read_cstring (Some 8) \<lparr>data = ''foo.obj'' @ [CHR 0x00] @ ''bar.obj'' @ [CHR 0x00], cursor = 0\<rparr>
       = Inr (''bar.obj'', \<lparr>data = ''foo.obj'' @ [CHR 0x00] @ ''bar.obj'' @ [CHR 0x00], cursor = 16\<rparr>)
   \<and> 0 \<le> cursor (seek None \<lparr>data = ''abc'', cursor = 1\<rparr>)
   \<and> read_cstring None \<lparr>data = ''abc'', cursor = 1\<rparr> = Inl IndexError"
  using read_cstring_spec[of "Some 8" "\<lparr>data = ''foo.obj'' @ [CHR 0x00] @ ''bar.obj'' @ [CHR 0x00], cursor = 0\<rparr>"]
        read_cstring_spec[of None "\<lparr>data = ''abc'', cursor = 1\<rparr>"]
  by (simp add: seek_def Let_def byte_in_def)

section \<open>The fixtures, evaluated\<close>

lemma py_int_facts:
  "py_int ''0'' = Inr 0"
  "py_int ''8'' = Inr 8"
  "py_int ''0           '' = Inr 0"
  "py_int ''0       '' = Inr 0"
  "py_int ''12        '' = Inr 12"
  "py_int ''0         '' = Inr 0"
  "py_int ''2         '' = Inr 2"
  "py_int ''4         '' = Inr 4"
  "py_int ''1         '' = Inr 1"
  "py_int '' 0          '' = Inr 0"
  "py_int '' 0      '' = Inr 0"
  "py_int '' 2        '' = Inr 2"
  "py_int ''5         '' = Inr 5"
  by (simp_all add: py_int_def is_space_def is_digit_def digit_value_def byte_in_def Let_def)

subsection \<open>\<open>archive_ok\<close>\<close>

lemma archive_ok_bytes:
  "archive_ok = ''!<arch>'' @ [CHR 0x0A] @ ''/               0                       0       12        `'' @ [CHR 0x0A, CHR 0x00, CHR 0x00, CHR 0x00, CHR 0x01, CHR 0x00, CHR 0x00, CHR 0x00, CHR 0x8C] @ ''sym'' @ [CHR 0x00] @ ''/               0                       0       0         `'' @ [CHR 0x0A] @ ''a.obj/          0                       0       2         `'' @ [CHR 0x0A] @ ''AA''"
  by code_simp

lemma archive_ok_length: "length archive_ok = 202"
  by (simp add: archive_ok_bytes)

lemma archive_ok_slices:
  "py_slice archive_ok 0 8 = ''!<arch>'' @ [CHR 0x0A]"
  "py_slice archive_ok 8 24 = ''/               ''"
  "py_slice archive_ok 24 36 = ''0           ''"
  "py_slice archive_ok 36 42 = ''      ''"
  "py_slice archive_ok 42 48 = ''      ''"
  "py_slice archive_ok 48 56 = ''0       ''"
  "py_slice archive_ok 56 66 = ''12        ''"
  "py_slice archive_ok 66 68 = ''`'' @ [CHR 0x0A]"
  "py_slice archive_ok 68 80 = [CHR 0x00, CHR 0x00, CHR 0x00, CHR 0x01, CHR 0x00, CHR 0x00, CHR 0x00, CHR 0x8C] @ ''sym'' @ [CHR 0x00]"
  "py_slice archive_ok 80 96 = ''/               ''"
  "py_slice archive_ok 96 108 = ''0           ''"
  "py_slice archive_ok 108 114 = ''      ''"
  "py_slice archive_ok 114 120 = ''      ''"
  "py_slice archive_ok 120 128 = ''0       ''"
  "py_slice archive_ok 128 138 = ''0         ''"
  "py_slice archive_ok 138 140 = ''`'' @ [CHR 0x0A]"
  "py_slice archive_ok 140 140 = []"
  "py_slice archive_ok 140 156 = ''a.obj/          ''"
  "py_slice archive_ok 156 168 = ''0           ''"
  "py_slice archive_ok 168 174 = ''      ''"
  "py_slice archive_ok 174 180 = ''      ''"
  "py_slice archive_ok 180 188 = ''0       ''"
  "py_slice archive_ok 188 198 = ''2         ''"
  "py_slice archive_ok 198 200 = ''`'' @ [CHR 0x0A]"
  "py_slice archive_ok 200 202 = ''AA''"
  by (simp_all add: archive_ok_bytes py_slice_def slice_bound_def)

lemma archive_ok_member_8:
  "read_member py_int ms \<lparr>data = archive_ok, cursor = 8\<rparr> fm =
     Inr (\<lparr>name = ''/'', date = 0, user_id = [], group_id = [], mode = 0, size_m = 12, content = \<lparr>data = [CHR 0x00, CHR 0x00, CHR 0x00, CHR 0x01, CHR 0x00, CHR 0x00, CHR 0x00, CHR 0x8C] @ ''sym'' @ [CHR 0x00], cursor = 0\<rparr>\<rparr>, \<lparr>data = archive_ok, cursor = 80\<rparr>, fm)"
  by (simp add: member_defs fixture_defs py_int_facts archive_ok_slices archive_ok_length cong: let_weak_cong)

lemma archive_ok_member_80:
  "read_member py_int ms \<lparr>data = archive_ok, cursor = 80\<rparr> fm =
     Inr (\<lparr>name = ''/'', date = 0, user_id = [], group_id = [], mode = 0, size_m = 0, content = \<lparr>data = [], cursor = 0\<rparr>\<rparr>, \<lparr>data = archive_ok, cursor = 140\<rparr>, fm)"
  by (simp add: member_defs fixture_defs py_int_facts archive_ok_slices archive_ok_length cong: let_weak_cong)

lemma archive_ok_member_140:
  "''a.obj'' \<notin> dom ms \<Longrightarrow>
   read_member py_int ms \<lparr>data = archive_ok, cursor = 140\<rparr> fm =
     Inr (\<lparr>name = ''a.obj'', date = 0, user_id = [], group_id = [], mode = 0, size_m = 2, content = \<lparr>data = ''AA'', cursor = 0\<rparr>\<rparr>, \<lparr>data = archive_ok, cursor = 202\<rparr>, fm)"
  by (simp add: member_defs fixture_defs py_int_facts archive_ok_slices archive_ok_length cong: let_weak_cong)

lemma archive_ok_member_140_again:
  "''a.obj'' \<in> dom ms \<Longrightarrow>
   read_member py_int ms \<lparr>data = archive_ok, cursor = 140\<rparr> fm =
     Inl (ArchiveReadException (FilenameTwice (''a.obj'')))"
  by (simp add: member_defs fixture_defs py_int_facts archive_ok_slices archive_ok_length cong: let_weak_cong)

lemma archive_ok_index:
  "parse_index \<lparr>data = [CHR 0x00, CHR 0x00, CHR 0x00, CHR 0x01, CHR 0x00, CHR 0x00, CHR 0x00, CHR 0x8C, CHR ''s'', CHR ''y'', CHR ''m'', CHR 0x00], cursor = 0\<rparr>
     [140 \<mapsto> ''a.obj''] Map.empty = Inr [''sym'' \<mapsto> ''a.obj'']"
  apply (simp add: parse_index_def stream_defs cong: let_weak_cong)
  apply (subst symbol_loop.simps, simp add: stream_defs cstring_end.simps cong: let_weak_cong)
  apply (subst symbol_loop.simps, simp add: stream_defs cong: let_weak_cong)
  done

lemma archive_ok_load_raw:
  "load py_int reset archive_ok =
     Some (Inr \<lparr>members = [''a.obj'' \<mapsto> \<lparr>name = ''a.obj'', date = 0, user_id = [], group_id = [], mode = 0, size_m = 2, content = \<lparr>data = ''AA'', cursor = 0\<rparr>\<rparr>], symbol_member_map = [''sym'' \<mapsto> ''a.obj'']\<rparr>)"
  apply (simp add: load_def reset_def archive_ok_member_8 archive_ok_slices archive_ok_length read_bytes_def seek_def
           new_cursor_def Let_def cong: let_weak_cong)
  apply (subst catalog.simps, simp add: archive_ok_member_80 more_to_read_def archive_ok_length print_stderr_def)
  apply (subst catalog.simps, simp add: archive_ok_member_140 more_to_read_def archive_ok_length print_stderr_def)
  apply (subst catalog.simps, simp add: more_to_read_def archive_ok_length archive_ok_index)
  done

lemma archive_ok_load_again_raw:
  "load py_int \<lparr>members = [''a.obj'' \<mapsto> \<lparr>name = ''a.obj'', date = 0, user_id = [], group_id = [], mode = 0, size_m = 2, content = \<lparr>data = ''AA'', cursor = 0\<rparr>\<rparr>], symbol_member_map = [''sym'' \<mapsto> ''a.obj'']\<rparr> archive_ok =
     Some (Inl (ArchiveReadException (FilenameTwice ''a.obj'')))"
  apply (simp add: load_def reset_def archive_ok_member_8 archive_ok_slices archive_ok_length read_bytes_def seek_def
           new_cursor_def Let_def cong: let_weak_cong)
  apply (subst catalog.simps, simp add: archive_ok_member_80 more_to_read_def archive_ok_length print_stderr_def)
  apply (subst catalog.simps, simp add: archive_ok_member_140_again more_to_read_def archive_ok_length print_stderr_def)
  done

lemma archive_ok_reader_eq:
  "archive_ok_reader = \<lparr>members = [''a.obj'' \<mapsto> \<lparr>name = ''a.obj'', date = 0, user_id = [], group_id = [], mode = 0, size_m = 2, content = \<lparr>data = ''AA'', cursor = 0\<rparr>\<rparr>], symbol_member_map = [''sym'' \<mapsto> ''a.obj'']\<rparr>"
  by (simp add: archive_ok_reader_def stored_member_def)

lemma archive_ok_load: "load py_int reset archive_ok = Some (Inr archive_ok_reader)"
  by (simp add: archive_ok_reader_eq archive_ok_load_raw)

lemma archive_ok_load_again:
  "load py_int archive_ok_reader archive_ok
     = Some (Inl (ArchiveReadException (FilenameTwice ''a.obj'')))"
  by (simp add: archive_ok_reader_eq archive_ok_load_again_raw)

subsection \<open>\<open>archive_odd\<close>\<close>

lemma archive_odd_bytes:
  "archive_odd = ''!<arch>'' @ [CHR 0x0A] @ ''/               0                       0       4         `'' @ [CHR 0x0A, CHR 0x00, CHR 0x00, CHR 0x00, CHR 0x00] @ ''/               0                       0       0         `'' @ [CHR 0x0A] @ ''a.obj/          0                       0       1         `'' @ [CHR 0x0A] @ ''A'' @ [CHR 0x0A] @ ''b.obj/          0                       0       2         `'' @ [CHR 0x0A] @ ''BB''"
  by code_simp

lemma archive_odd_length: "length archive_odd = 256"
  by (simp add: archive_odd_bytes)

lemma archive_odd_slices:
  "py_slice archive_odd 0 8 = ''!<arch>'' @ [CHR 0x0A]"
  "py_slice archive_odd 8 24 = ''/               ''"
  "py_slice archive_odd 24 36 = ''0           ''"
  "py_slice archive_odd 36 42 = ''      ''"
  "py_slice archive_odd 42 48 = ''      ''"
  "py_slice archive_odd 48 56 = ''0       ''"
  "py_slice archive_odd 56 66 = ''4         ''"
  "py_slice archive_odd 66 68 = ''`'' @ [CHR 0x0A]"
  "py_slice archive_odd 68 72 = [CHR 0x00, CHR 0x00, CHR 0x00, CHR 0x00]"
  "py_slice archive_odd 72 88 = ''/               ''"
  "py_slice archive_odd 88 100 = ''0           ''"
  "py_slice archive_odd 100 106 = ''      ''"
  "py_slice archive_odd 106 112 = ''      ''"
  "py_slice archive_odd 112 120 = ''0       ''"
  "py_slice archive_odd 120 130 = ''0         ''"
  "py_slice archive_odd 130 132 = ''`'' @ [CHR 0x0A]"
  "py_slice archive_odd 132 132 = []"
  "py_slice archive_odd 132 148 = ''a.obj/          ''"
  "py_slice archive_odd 148 160 = ''0           ''"
  "py_slice archive_odd 160 166 = ''      ''"
  "py_slice archive_odd 166 172 = ''      ''"
  "py_slice archive_odd 172 180 = ''0       ''"
  "py_slice archive_odd 180 190 = ''1         ''"
  "py_slice archive_odd 190 192 = ''`'' @ [CHR 0x0A]"
  "py_slice archive_odd 192 193 = ''A''"
  "py_slice archive_odd 193 209 = [CHR 0x0A] @ ''b.obj/         ''"
  "py_slice archive_odd 209 221 = '' 0          ''"
  "py_slice archive_odd 221 227 = ''      ''"
  "py_slice archive_odd 227 233 = ''      ''"
  "py_slice archive_odd 233 241 = '' 0      ''"
  "py_slice archive_odd 241 251 = '' 2        ''"
  "py_slice archive_odd 251 253 = '' `''"
  by (simp_all add: archive_odd_bytes py_slice_def slice_bound_def)

lemma archive_odd_member_8:
  "read_member py_int ms \<lparr>data = archive_odd, cursor = 8\<rparr> fm =
     Inr (\<lparr>name = ''/'', date = 0, user_id = [], group_id = [], mode = 0, size_m = 4, content = \<lparr>data = [CHR 0x00, CHR 0x00, CHR 0x00, CHR 0x00], cursor = 0\<rparr>\<rparr>, \<lparr>data = archive_odd, cursor = 72\<rparr>, fm)"
  by (simp add: member_defs fixture_defs py_int_facts archive_odd_slices archive_odd_length cong: let_weak_cong)

lemma archive_odd_member_72:
  "read_member py_int ms \<lparr>data = archive_odd, cursor = 72\<rparr> fm =
     Inr (\<lparr>name = ''/'', date = 0, user_id = [], group_id = [], mode = 0, size_m = 0, content = \<lparr>data = [], cursor = 0\<rparr>\<rparr>, \<lparr>data = archive_odd, cursor = 132\<rparr>, fm)"
  by (simp add: member_defs fixture_defs py_int_facts archive_odd_slices archive_odd_length cong: let_weak_cong)

lemma archive_odd_member_132:
  "''a.obj'' \<notin> dom ms \<Longrightarrow>
   read_member py_int ms \<lparr>data = archive_odd, cursor = 132\<rparr> fm =
     Inr (\<lparr>name = ''a.obj'', date = 0, user_id = [], group_id = [], mode = 0, size_m = 1, content = \<lparr>data = ''A'', cursor = 0\<rparr>\<rparr>, \<lparr>data = archive_odd, cursor = 193\<rparr>, fm)"
  by (simp add: member_defs fixture_defs py_int_facts archive_odd_slices archive_odd_length cong: let_weak_cong)

lemma archive_odd_member_193:
  "[CHR 0x0A] @ ''b.obj'' \<notin> dom ms \<Longrightarrow>
   read_member py_int ms \<lparr>data = archive_odd, cursor = 193\<rparr> fm =
     Inl (NameError ''sys'')"
  by (simp add: member_defs fixture_defs py_int_facts archive_odd_slices archive_odd_length cong: let_weak_cong)

lemma archive_odd_load:
  "load py_int reset archive_odd =
     Some (Inl (NameError ''sys''))"
  apply (simp add: load_def reset_def archive_odd_member_8 archive_odd_slices archive_odd_length read_bytes_def seek_def
           new_cursor_def Let_def cong: let_weak_cong)
  apply (subst catalog.simps, simp add: archive_odd_member_72 more_to_read_def archive_odd_length print_stderr_def)
  apply (subst catalog.simps, simp add: archive_odd_member_132 more_to_read_def archive_odd_length print_stderr_def)
  apply (subst catalog.simps, simp add: archive_odd_member_193 more_to_read_def archive_odd_length print_stderr_def)
  done

subsection \<open>\<open>archive_no_second_index\<close>\<close>

lemma archive_no_second_index_bytes:
  "archive_no_second_index = ''!<arch>'' @ [CHR 0x0A] @ ''/               0                       0       4         `'' @ [CHR 0x0A, CHR 0x00, CHR 0x00, CHR 0x00, CHR 0x00] @ ''a.obj/          0                       0       2         `'' @ [CHR 0x0A] @ ''AA''"
  by code_simp

lemma archive_no_second_index_length: "length archive_no_second_index = 134"
  by (simp add: archive_no_second_index_bytes)

lemma archive_no_second_index_slices:
  "py_slice archive_no_second_index 0 8 = ''!<arch>'' @ [CHR 0x0A]"
  "py_slice archive_no_second_index 8 24 = ''/               ''"
  "py_slice archive_no_second_index 24 36 = ''0           ''"
  "py_slice archive_no_second_index 36 42 = ''      ''"
  "py_slice archive_no_second_index 42 48 = ''      ''"
  "py_slice archive_no_second_index 48 56 = ''0       ''"
  "py_slice archive_no_second_index 56 66 = ''4         ''"
  "py_slice archive_no_second_index 66 68 = ''`'' @ [CHR 0x0A]"
  "py_slice archive_no_second_index 68 72 = [CHR 0x00, CHR 0x00, CHR 0x00, CHR 0x00]"
  "py_slice archive_no_second_index 72 88 = ''a.obj/          ''"
  "py_slice archive_no_second_index 88 100 = ''0           ''"
  "py_slice archive_no_second_index 100 106 = ''      ''"
  "py_slice archive_no_second_index 106 112 = ''      ''"
  "py_slice archive_no_second_index 112 120 = ''0       ''"
  "py_slice archive_no_second_index 120 130 = ''2         ''"
  "py_slice archive_no_second_index 130 132 = ''`'' @ [CHR 0x0A]"
  "py_slice archive_no_second_index 132 134 = ''AA''"
  by (simp_all add: archive_no_second_index_bytes py_slice_def slice_bound_def)

lemma archive_no_second_index_member_8:
  "read_member py_int ms \<lparr>data = archive_no_second_index, cursor = 8\<rparr> fm =
     Inr (\<lparr>name = ''/'', date = 0, user_id = [], group_id = [], mode = 0, size_m = 4, content = \<lparr>data = [CHR 0x00, CHR 0x00, CHR 0x00, CHR 0x00], cursor = 0\<rparr>\<rparr>, \<lparr>data = archive_no_second_index, cursor = 72\<rparr>, fm)"
  by (simp add: member_defs fixture_defs py_int_facts archive_no_second_index_slices archive_no_second_index_length cong: let_weak_cong)

lemma archive_no_second_index_member_72:
  "''a.obj'' \<notin> dom ms \<Longrightarrow>
   read_member py_int ms \<lparr>data = archive_no_second_index, cursor = 72\<rparr> fm =
     Inr (\<lparr>name = ''a.obj'', date = 0, user_id = [], group_id = [], mode = 0, size_m = 2, content = \<lparr>data = ''AA'', cursor = 0\<rparr>\<rparr>, \<lparr>data = archive_no_second_index, cursor = 134\<rparr>, fm)"
  by (simp add: member_defs fixture_defs py_int_facts archive_no_second_index_slices archive_no_second_index_length cong: let_weak_cong)

lemma archive_no_second_index_load:
  "load py_int reset archive_no_second_index =
     Some (Inl (NameError ''sys''))"
  apply (simp add: load_def reset_def archive_no_second_index_member_8 archive_no_second_index_slices archive_no_second_index_length read_bytes_def seek_def
           new_cursor_def Let_def cong: let_weak_cong)
  apply (subst catalog.simps, simp add: archive_no_second_index_member_72 more_to_read_def archive_no_second_index_length print_stderr_def)
  done

subsection \<open>\<open>archive_bad_terminator\<close>\<close>

lemma archive_bad_terminator_bytes:
  "archive_bad_terminator = ''!<arch>'' @ [CHR 0x0A] @ ''/               0                       0       0         xx''"
  by code_simp

lemma archive_bad_terminator_length: "length archive_bad_terminator = 68"
  by (simp add: archive_bad_terminator_bytes)

lemma archive_bad_terminator_slices:
  "py_slice archive_bad_terminator 0 8 = ''!<arch>'' @ [CHR 0x0A]"
  "py_slice archive_bad_terminator 8 24 = ''/               ''"
  "py_slice archive_bad_terminator 24 36 = ''0           ''"
  "py_slice archive_bad_terminator 36 42 = ''      ''"
  "py_slice archive_bad_terminator 42 48 = ''      ''"
  "py_slice archive_bad_terminator 48 56 = ''0       ''"
  "py_slice archive_bad_terminator 56 66 = ''0         ''"
  "py_slice archive_bad_terminator 66 68 = ''xx''"
  by (simp_all add: archive_bad_terminator_bytes py_slice_def slice_bound_def)

lemma archive_bad_terminator_member_8:
  "read_member py_int ms \<lparr>data = archive_bad_terminator, cursor = 8\<rparr> fm =
     Inl (NameError ''sys'')"
  by (simp add: member_defs fixture_defs py_int_facts archive_bad_terminator_slices archive_bad_terminator_length cong: let_weak_cong)

lemma archive_bad_terminator_load:
  "load py_int reset archive_bad_terminator =
     Some (Inl (NameError ''sys''))"
  apply (simp add: load_def reset_def archive_bad_terminator_member_8 archive_bad_terminator_slices archive_bad_terminator_length read_bytes_def seek_def
           new_cursor_def Let_def cong: let_weak_cong)
  done

subsection \<open>\<open>archive_bad_padding\<close>\<close>

lemma archive_bad_padding_bytes:
  "archive_bad_padding = ''!<arch>'' @ [CHR 0x0A] @ ''/               0                       0       5         `'' @ [CHR 0x0A, CHR 0x00, CHR 0x00, CHR 0x00, CHR 0x00, CHR 0x00] @ ''/               0                       0       0         `'' @ [CHR 0x0A] @ ''X''"
  by code_simp

lemma archive_bad_padding_length: "length archive_bad_padding = 134"
  by (simp add: archive_bad_padding_bytes)

lemma archive_bad_padding_slices:
  "py_slice archive_bad_padding 0 8 = ''!<arch>'' @ [CHR 0x0A]"
  "py_slice archive_bad_padding 8 24 = ''/               ''"
  "py_slice archive_bad_padding 24 36 = ''0           ''"
  "py_slice archive_bad_padding 36 42 = ''      ''"
  "py_slice archive_bad_padding 42 48 = ''      ''"
  "py_slice archive_bad_padding 48 56 = ''0       ''"
  "py_slice archive_bad_padding 56 66 = ''5         ''"
  "py_slice archive_bad_padding 66 68 = ''`'' @ [CHR 0x0A]"
  "py_slice archive_bad_padding 68 73 = [CHR 0x00, CHR 0x00, CHR 0x00, CHR 0x00, CHR 0x00]"
  "py_slice archive_bad_padding 73 89 = ''/               ''"
  "py_slice archive_bad_padding 89 101 = ''0           ''"
  "py_slice archive_bad_padding 101 107 = ''      ''"
  "py_slice archive_bad_padding 107 113 = ''      ''"
  "py_slice archive_bad_padding 113 121 = ''0       ''"
  "py_slice archive_bad_padding 121 131 = ''0         ''"
  "py_slice archive_bad_padding 131 133 = ''`'' @ [CHR 0x0A]"
  "py_slice archive_bad_padding 133 134 = ''X''"
  by (simp_all add: archive_bad_padding_bytes py_slice_def slice_bound_def)

lemma archive_bad_padding_member_8:
  "read_member py_int ms \<lparr>data = archive_bad_padding, cursor = 8\<rparr> fm =
     Inr (\<lparr>name = ''/'', date = 0, user_id = [], group_id = [], mode = 0, size_m = 5, content = \<lparr>data = [CHR 0x00, CHR 0x00, CHR 0x00, CHR 0x00, CHR 0x00], cursor = 0\<rparr>\<rparr>, \<lparr>data = archive_bad_padding, cursor = 73\<rparr>, fm)"
  by (simp add: member_defs fixture_defs py_int_facts archive_bad_padding_slices archive_bad_padding_length cong: let_weak_cong)

lemma archive_bad_padding_member_73:
  "read_member py_int ms \<lparr>data = archive_bad_padding, cursor = 73\<rparr> fm =
     Inl (NameError ''sys'')"
  by (simp add: member_defs fixture_defs py_int_facts archive_bad_padding_slices archive_bad_padding_length cong: let_weak_cong)

lemma archive_bad_padding_load:
  "load py_int reset archive_bad_padding =
     Some (Inl (NameError ''sys''))"
  apply (simp add: load_def reset_def archive_bad_padding_member_8 archive_bad_padding_slices archive_bad_padding_length read_bytes_def seek_def
           new_cursor_def Let_def cong: let_weak_cong)
  apply (subst catalog.simps, simp add: archive_bad_padding_member_73 more_to_read_def archive_bad_padding_length print_stderr_def)
  done

subsection \<open>\<open>archive_two_lookups\<close>\<close>

lemma archive_two_lookups_bytes:
  "archive_two_lookups = ''!<arch>'' @ [CHR 0x0A] @ ''/               0                       0       4         `'' @ [CHR 0x0A, CHR 0x00, CHR 0x00, CHR 0x00, CHR 0x00] @ ''/               0                       0       0         `'' @ [CHR 0x0A] @ ''//              0                       0       0         `'' @ [CHR 0x0A] @ ''//              0                       0       0         `'' @ [CHR 0x0A]"
  by code_simp

lemma archive_two_lookups_length: "length archive_two_lookups = 252"
  by (simp add: archive_two_lookups_bytes)

lemma archive_two_lookups_slices:
  "py_slice archive_two_lookups 0 8 = ''!<arch>'' @ [CHR 0x0A]"
  "py_slice archive_two_lookups 8 24 = ''/               ''"
  "py_slice archive_two_lookups 24 36 = ''0           ''"
  "py_slice archive_two_lookups 36 42 = ''      ''"
  "py_slice archive_two_lookups 42 48 = ''      ''"
  "py_slice archive_two_lookups 48 56 = ''0       ''"
  "py_slice archive_two_lookups 56 66 = ''4         ''"
  "py_slice archive_two_lookups 66 68 = ''`'' @ [CHR 0x0A]"
  "py_slice archive_two_lookups 68 72 = [CHR 0x00, CHR 0x00, CHR 0x00, CHR 0x00]"
  "py_slice archive_two_lookups 72 88 = ''/               ''"
  "py_slice archive_two_lookups 88 100 = ''0           ''"
  "py_slice archive_two_lookups 100 106 = ''      ''"
  "py_slice archive_two_lookups 106 112 = ''      ''"
  "py_slice archive_two_lookups 112 120 = ''0       ''"
  "py_slice archive_two_lookups 120 130 = ''0         ''"
  "py_slice archive_two_lookups 130 132 = ''`'' @ [CHR 0x0A]"
  "py_slice archive_two_lookups 132 132 = []"
  "py_slice archive_two_lookups 132 148 = ''//              ''"
  "py_slice archive_two_lookups 148 160 = ''0           ''"
  "py_slice archive_two_lookups 160 166 = ''      ''"
  "py_slice archive_two_lookups 166 172 = ''      ''"
  "py_slice archive_two_lookups 172 180 = ''0       ''"
  "py_slice archive_two_lookups 180 190 = ''0         ''"
  "py_slice archive_two_lookups 190 192 = ''`'' @ [CHR 0x0A]"
  "py_slice archive_two_lookups 192 192 = []"
  "py_slice archive_two_lookups 192 208 = ''//              ''"
  "py_slice archive_two_lookups 208 220 = ''0           ''"
  "py_slice archive_two_lookups 220 226 = ''      ''"
  "py_slice archive_two_lookups 226 232 = ''      ''"
  "py_slice archive_two_lookups 232 240 = ''0       ''"
  "py_slice archive_two_lookups 240 250 = ''0         ''"
  "py_slice archive_two_lookups 250 252 = ''`'' @ [CHR 0x0A]"
  "py_slice archive_two_lookups 252 252 = []"
  by (simp_all add: archive_two_lookups_bytes py_slice_def slice_bound_def)

lemma archive_two_lookups_member_8:
  "read_member py_int ms \<lparr>data = archive_two_lookups, cursor = 8\<rparr> fm =
     Inr (\<lparr>name = ''/'', date = 0, user_id = [], group_id = [], mode = 0, size_m = 4, content = \<lparr>data = [CHR 0x00, CHR 0x00, CHR 0x00, CHR 0x00], cursor = 0\<rparr>\<rparr>, \<lparr>data = archive_two_lookups, cursor = 72\<rparr>, fm)"
  by (simp add: member_defs fixture_defs py_int_facts archive_two_lookups_slices archive_two_lookups_length cong: let_weak_cong)

lemma archive_two_lookups_member_72:
  "read_member py_int ms \<lparr>data = archive_two_lookups, cursor = 72\<rparr> fm =
     Inr (\<lparr>name = ''/'', date = 0, user_id = [], group_id = [], mode = 0, size_m = 0, content = \<lparr>data = [], cursor = 0\<rparr>\<rparr>, \<lparr>data = archive_two_lookups, cursor = 132\<rparr>, fm)"
  by (simp add: member_defs fixture_defs py_int_facts archive_two_lookups_slices archive_two_lookups_length cong: let_weak_cong)

lemma archive_two_lookups_member_132:
  "read_member py_int ms \<lparr>data = archive_two_lookups, cursor = 132\<rparr> fm =
     Inr (\<lparr>name = ''//'', date = 0, user_id = [], group_id = [], mode = 0, size_m = 0, content = \<lparr>data = [], cursor = 0\<rparr>\<rparr>, \<lparr>data = archive_two_lookups, cursor = 192\<rparr>, fm)"
  by (simp add: member_defs fixture_defs py_int_facts archive_two_lookups_slices archive_two_lookups_length cong: let_weak_cong)

lemma archive_two_lookups_member_192:
  "read_member py_int ms \<lparr>data = archive_two_lookups, cursor = 192\<rparr> fm =
     Inr (\<lparr>name = ''//'', date = 0, user_id = [], group_id = [], mode = 0, size_m = 0, content = \<lparr>data = [], cursor = 0\<rparr>\<rparr>, \<lparr>data = archive_two_lookups, cursor = 252\<rparr>, fm)"
  by (simp add: member_defs fixture_defs py_int_facts archive_two_lookups_slices archive_two_lookups_length cong: let_weak_cong)

lemma archive_two_lookups_load:
  "load py_int reset archive_two_lookups =
     Some (Inl (NameError ''sys''))"
  apply (simp add: load_def reset_def archive_two_lookups_member_8 archive_two_lookups_slices archive_two_lookups_length read_bytes_def seek_def
           new_cursor_def Let_def cong: let_weak_cong)
  apply (subst catalog.simps, simp add: archive_two_lookups_member_72 more_to_read_def archive_two_lookups_length print_stderr_def)
  apply (subst catalog.simps, simp add: archive_two_lookups_member_132 more_to_read_def archive_two_lookups_length print_stderr_def)
  apply (subst catalog.simps, simp add: archive_two_lookups_member_192 more_to_read_def archive_two_lookups_length print_stderr_def)
  done

subsection \<open>\<open>archive_absent_offset\<close>\<close>

lemma archive_absent_offset_bytes:
  "archive_absent_offset = ''!<arch>'' @ [CHR 0x0A] @ ''/               0                       0       12        `'' @ [CHR 0x0A, CHR 0x00, CHR 0x00, CHR 0x00, CHR 0x01, CHR 0x00, CHR 0x00, CHR 0x03, CHR 0xE7] @ ''sym'' @ [CHR 0x00] @ ''/               0                       0       0         `'' @ [CHR 0x0A] @ ''a.obj/          0                       0       2         `'' @ [CHR 0x0A] @ ''AA''"
  by code_simp

lemma archive_absent_offset_length: "length archive_absent_offset = 202"
  by (simp add: archive_absent_offset_bytes)

lemma archive_absent_offset_slices:
  "py_slice archive_absent_offset 0 8 = ''!<arch>'' @ [CHR 0x0A]"
  "py_slice archive_absent_offset 8 24 = ''/               ''"
  "py_slice archive_absent_offset 24 36 = ''0           ''"
  "py_slice archive_absent_offset 36 42 = ''      ''"
  "py_slice archive_absent_offset 42 48 = ''      ''"
  "py_slice archive_absent_offset 48 56 = ''0       ''"
  "py_slice archive_absent_offset 56 66 = ''12        ''"
  "py_slice archive_absent_offset 66 68 = ''`'' @ [CHR 0x0A]"
  "py_slice archive_absent_offset 68 80 = [CHR 0x00, CHR 0x00, CHR 0x00, CHR 0x01, CHR 0x00, CHR 0x00, CHR 0x03, CHR 0xE7] @ ''sym'' @ [CHR 0x00]"
  "py_slice archive_absent_offset 80 96 = ''/               ''"
  "py_slice archive_absent_offset 96 108 = ''0           ''"
  "py_slice archive_absent_offset 108 114 = ''      ''"
  "py_slice archive_absent_offset 114 120 = ''      ''"
  "py_slice archive_absent_offset 120 128 = ''0       ''"
  "py_slice archive_absent_offset 128 138 = ''0         ''"
  "py_slice archive_absent_offset 138 140 = ''`'' @ [CHR 0x0A]"
  "py_slice archive_absent_offset 140 140 = []"
  "py_slice archive_absent_offset 140 156 = ''a.obj/          ''"
  "py_slice archive_absent_offset 156 168 = ''0           ''"
  "py_slice archive_absent_offset 168 174 = ''      ''"
  "py_slice archive_absent_offset 174 180 = ''      ''"
  "py_slice archive_absent_offset 180 188 = ''0       ''"
  "py_slice archive_absent_offset 188 198 = ''2         ''"
  "py_slice archive_absent_offset 198 200 = ''`'' @ [CHR 0x0A]"
  "py_slice archive_absent_offset 200 202 = ''AA''"
  by (simp_all add: archive_absent_offset_bytes py_slice_def slice_bound_def)

lemma archive_absent_offset_member_8:
  "read_member py_int ms \<lparr>data = archive_absent_offset, cursor = 8\<rparr> fm =
     Inr (\<lparr>name = ''/'', date = 0, user_id = [], group_id = [], mode = 0, size_m = 12, content = \<lparr>data = [CHR 0x00, CHR 0x00, CHR 0x00, CHR 0x01, CHR 0x00, CHR 0x00, CHR 0x03, CHR 0xE7] @ ''sym'' @ [CHR 0x00], cursor = 0\<rparr>\<rparr>, \<lparr>data = archive_absent_offset, cursor = 80\<rparr>, fm)"
  by (simp add: member_defs fixture_defs py_int_facts archive_absent_offset_slices archive_absent_offset_length cong: let_weak_cong)

lemma archive_absent_offset_member_80:
  "read_member py_int ms \<lparr>data = archive_absent_offset, cursor = 80\<rparr> fm =
     Inr (\<lparr>name = ''/'', date = 0, user_id = [], group_id = [], mode = 0, size_m = 0, content = \<lparr>data = [], cursor = 0\<rparr>\<rparr>, \<lparr>data = archive_absent_offset, cursor = 140\<rparr>, fm)"
  by (simp add: member_defs fixture_defs py_int_facts archive_absent_offset_slices archive_absent_offset_length cong: let_weak_cong)

lemma archive_absent_offset_member_140:
  "''a.obj'' \<notin> dom ms \<Longrightarrow>
   read_member py_int ms \<lparr>data = archive_absent_offset, cursor = 140\<rparr> fm =
     Inr (\<lparr>name = ''a.obj'', date = 0, user_id = [], group_id = [], mode = 0, size_m = 2, content = \<lparr>data = ''AA'', cursor = 0\<rparr>\<rparr>, \<lparr>data = archive_absent_offset, cursor = 202\<rparr>, fm)"
  by (simp add: member_defs fixture_defs py_int_facts archive_absent_offset_slices archive_absent_offset_length cong: let_weak_cong)

lemma archive_absent_offset_catalog:
  "catalog py_int
       \<lparr>self_members = Map.empty, is_first_member_after_index = True,
        member_name_by_offset = Map.empty, filename_member = None,
        data_stream = \<lparr>data = archive_absent_offset, cursor = 80\<rparr>\<rparr>
     = Some (Inr
       \<lparr>self_members = [''a.obj'' \<mapsto> \<lparr>name = ''a.obj'', date = 0, user_id = [], group_id = [], mode = 0, size_m = 2, content = \<lparr>data = ''AA'', cursor = 0\<rparr>\<rparr>], is_first_member_after_index = False,
        member_name_by_offset = [140 \<mapsto> ''a.obj''], filename_member = None,
        data_stream = \<lparr>data = archive_absent_offset, cursor = 202\<rparr>\<rparr>)"
  apply (subst catalog.simps, simp add: archive_absent_offset_member_80 more_to_read_def archive_absent_offset_length print_stderr_def)
  apply (subst catalog.simps, simp add: archive_absent_offset_member_140 more_to_read_def archive_absent_offset_length print_stderr_def)
  apply (subst catalog.simps, simp add: more_to_read_def archive_absent_offset_length)
  done

lemma archive_absent_offset_index:
  "parse_index \<lparr>data = [CHR 0x00, CHR 0x00, CHR 0x00, CHR 0x01, CHR 0x00, CHR 0x00, CHR 0x03, CHR 0xE7, CHR ''s'', CHR ''y'', CHR ''m'', CHR 0x00], cursor = 0\<rparr>
     [140 \<mapsto> ''a.obj''] Map.empty = Inl (KeyError 999)"
  apply (simp add: parse_index_def stream_defs cong: let_weak_cong)
  apply (subst symbol_loop.simps, simp add: stream_defs cstring_end.simps cong: let_weak_cong)
  done

lemma archive_absent_offset_load: "load py_int reset archive_absent_offset = Some (Inl (KeyError 999))"
  by (simp add: load_def reset_def archive_absent_offset_member_8 archive_absent_offset_slices archive_absent_offset_length read_bytes_def seek_def
        new_cursor_def Let_def archive_absent_offset_catalog archive_absent_offset_index cong: let_weak_cong)

subsection \<open>\<open>archive_no_terminator\<close>\<close>

lemma archive_no_terminator_bytes:
  "archive_no_terminator = ''!<arch>'' @ [CHR 0x0A] @ ''/               0                       0       12        `'' @ [CHR 0x0A, CHR 0x00, CHR 0x00, CHR 0x00, CHR 0x01, CHR 0x00, CHR 0x00, CHR 0x03, CHR 0xE7] @ ''symb/               0                       0       0         `'' @ [CHR 0x0A] @ ''a.obj/          0                       0       2         `'' @ [CHR 0x0A] @ ''AA''"
  by code_simp

lemma archive_no_terminator_length: "length archive_no_terminator = 202"
  by (simp add: archive_no_terminator_bytes)

lemma archive_no_terminator_slices:
  "py_slice archive_no_terminator 0 8 = ''!<arch>'' @ [CHR 0x0A]"
  "py_slice archive_no_terminator 8 24 = ''/               ''"
  "py_slice archive_no_terminator 24 36 = ''0           ''"
  "py_slice archive_no_terminator 36 42 = ''      ''"
  "py_slice archive_no_terminator 42 48 = ''      ''"
  "py_slice archive_no_terminator 48 56 = ''0       ''"
  "py_slice archive_no_terminator 56 66 = ''12        ''"
  "py_slice archive_no_terminator 66 68 = ''`'' @ [CHR 0x0A]"
  "py_slice archive_no_terminator 68 80 = [CHR 0x00, CHR 0x00, CHR 0x00, CHR 0x01, CHR 0x00, CHR 0x00, CHR 0x03, CHR 0xE7] @ ''symb''"
  "py_slice archive_no_terminator 80 96 = ''/               ''"
  "py_slice archive_no_terminator 96 108 = ''0           ''"
  "py_slice archive_no_terminator 108 114 = ''      ''"
  "py_slice archive_no_terminator 114 120 = ''      ''"
  "py_slice archive_no_terminator 120 128 = ''0       ''"
  "py_slice archive_no_terminator 128 138 = ''0         ''"
  "py_slice archive_no_terminator 138 140 = ''`'' @ [CHR 0x0A]"
  "py_slice archive_no_terminator 140 140 = []"
  "py_slice archive_no_terminator 140 156 = ''a.obj/          ''"
  "py_slice archive_no_terminator 156 168 = ''0           ''"
  "py_slice archive_no_terminator 168 174 = ''      ''"
  "py_slice archive_no_terminator 174 180 = ''      ''"
  "py_slice archive_no_terminator 180 188 = ''0       ''"
  "py_slice archive_no_terminator 188 198 = ''2         ''"
  "py_slice archive_no_terminator 198 200 = ''`'' @ [CHR 0x0A]"
  "py_slice archive_no_terminator 200 202 = ''AA''"
  by (simp_all add: archive_no_terminator_bytes py_slice_def slice_bound_def)

lemma archive_no_terminator_member_8:
  "read_member py_int ms \<lparr>data = archive_no_terminator, cursor = 8\<rparr> fm =
     Inr (\<lparr>name = ''/'', date = 0, user_id = [], group_id = [], mode = 0, size_m = 12, content = \<lparr>data = [CHR 0x00, CHR 0x00, CHR 0x00, CHR 0x01, CHR 0x00, CHR 0x00, CHR 0x03, CHR 0xE7] @ ''symb'', cursor = 0\<rparr>\<rparr>, \<lparr>data = archive_no_terminator, cursor = 80\<rparr>, fm)"
  by (simp add: member_defs fixture_defs py_int_facts archive_no_terminator_slices archive_no_terminator_length cong: let_weak_cong)

lemma archive_no_terminator_member_80:
  "read_member py_int ms \<lparr>data = archive_no_terminator, cursor = 80\<rparr> fm =
     Inr (\<lparr>name = ''/'', date = 0, user_id = [], group_id = [], mode = 0, size_m = 0, content = \<lparr>data = [], cursor = 0\<rparr>\<rparr>, \<lparr>data = archive_no_terminator, cursor = 140\<rparr>, fm)"
  by (simp add: member_defs fixture_defs py_int_facts archive_no_terminator_slices archive_no_terminator_length cong: let_weak_cong)

lemma archive_no_terminator_member_140:
  "''a.obj'' \<notin> dom ms \<Longrightarrow>
   read_member py_int ms \<lparr>data = archive_no_terminator, cursor = 140\<rparr> fm =
     Inr (\<lparr>name = ''a.obj'', date = 0, user_id = [], group_id = [], mode = 0, size_m = 2, content = \<lparr>data = ''AA'', cursor = 0\<rparr>\<rparr>, \<lparr>data = archive_no_terminator, cursor = 202\<rparr>, fm)"
  by (simp add: member_defs fixture_defs py_int_facts archive_no_terminator_slices archive_no_terminator_length cong: let_weak_cong)

lemma archive_no_terminator_catalog:
  "catalog py_int
       \<lparr>self_members = Map.empty, is_first_member_after_index = True,
        member_name_by_offset = Map.empty, filename_member = None,
        data_stream = \<lparr>data = archive_no_terminator, cursor = 80\<rparr>\<rparr>
     = Some (Inr
       \<lparr>self_members = [''a.obj'' \<mapsto> \<lparr>name = ''a.obj'', date = 0, user_id = [], group_id = [], mode = 0, size_m = 2, content = \<lparr>data = ''AA'', cursor = 0\<rparr>\<rparr>], is_first_member_after_index = False,
        member_name_by_offset = [140 \<mapsto> ''a.obj''], filename_member = None,
        data_stream = \<lparr>data = archive_no_terminator, cursor = 202\<rparr>\<rparr>)"
  apply (subst catalog.simps, simp add: archive_no_terminator_member_80 more_to_read_def archive_no_terminator_length print_stderr_def)
  apply (subst catalog.simps, simp add: archive_no_terminator_member_140 more_to_read_def archive_no_terminator_length print_stderr_def)
  apply (subst catalog.simps, simp add: more_to_read_def archive_no_terminator_length)
  done

lemma archive_no_terminator_index:
  "parse_index \<lparr>data = [CHR 0x00, CHR 0x00, CHR 0x00, CHR 0x01, CHR 0x00, CHR 0x00, CHR 0x03, CHR 0xE7, CHR ''s'', CHR ''y'', CHR ''m'', CHR ''b''], cursor = 0\<rparr>
     [140 \<mapsto> ''a.obj''] Map.empty = Inl (IndexError)"
  apply (simp add: parse_index_def stream_defs cong: let_weak_cong)
  apply (subst symbol_loop.simps, simp add: stream_defs cstring_end.simps cong: let_weak_cong)
  done

lemma archive_no_terminator_load: "load py_int reset archive_no_terminator = Some (Inl (IndexError))"
  by (simp add: load_def reset_def archive_no_terminator_member_8 archive_no_terminator_slices archive_no_terminator_length read_bytes_def seek_def
        new_cursor_def Let_def archive_no_terminator_catalog archive_no_terminator_index cong: let_weak_cong)

subsection \<open>Names by offset\<close>

lemma by_offset_0_bytes:
  "by_offset_0 = ''/0              0                       0       0         `'' @ [CHR 0x0A]"
  by code_simp

lemma by_offset_0_length: "length by_offset_0 = 60"
  by (simp add: by_offset_0_bytes)

lemma by_offset_0_slices:
  "py_slice by_offset_0 0 16 = ''/0              ''"
  "py_slice by_offset_0 16 28 = ''0           ''"
  "py_slice by_offset_0 28 34 = ''      ''"
  "py_slice by_offset_0 34 40 = ''      ''"
  "py_slice by_offset_0 40 48 = ''0       ''"
  "py_slice by_offset_0 48 58 = ''0         ''"
  "py_slice by_offset_0 58 60 = ''`'' @ [CHR 0x0A]"
  "py_slice by_offset_0 60 60 = []"
  by (simp_all add: by_offset_0_bytes py_slice_def slice_bound_def)

lemma names_table_0:
  "read_cstring (Some 0) \<lparr>data = [CHR ''f'', CHR ''o'', CHR ''o'', CHR ''.'', CHR ''o'', CHR ''b'', CHR ''j'', CHR 0x00, CHR ''b'', CHR ''a'', CHR ''r'', CHR ''.'', CHR ''o'', CHR ''b'', CHR ''j'', CHR 0x00], cursor = 0\<rparr>
     = Inr (''foo.obj'', \<lparr>data = [CHR ''f'', CHR ''o'', CHR ''o'', CHR ''.'', CHR ''o'', CHR ''b'', CHR ''j'', CHR 0x00, CHR ''b'', CHR ''a'', CHR ''r'', CHR ''.'', CHR ''o'', CHR ''b'', CHR ''j'', CHR 0x00], cursor = 8\<rparr>)"
  by (simp add: stream_defs cstring_end.simps cong: let_weak_cong)

lemma by_offset_0_member:
  "read_member py_int Map.empty \<lparr>data = by_offset_0, cursor = 0\<rparr> (Some names_table) =
     Inr (\<lparr>name = ''foo.obj'', date = 0, user_id = [], group_id = [], mode = 0, size_m = 0,
           content = \<lparr>data = [], cursor = 0\<rparr>\<rparr>,
          \<lparr>data = by_offset_0, cursor = 60\<rparr>,
          Some (names_table\<lparr>content := \<lparr>data = [CHR ''f'', CHR ''o'', CHR ''o'', CHR ''.'', CHR ''o'', CHR ''b'', CHR ''j'', CHR 0x00, CHR ''b'', CHR ''a'', CHR ''r'', CHR ''.'', CHR ''o'', CHR ''b'', CHR ''j'', CHR 0x00], cursor = 8\<rparr>\<rparr>))"
  by (simp add: member_defs fixture_defs py_int_facts by_offset_0_slices by_offset_0_length names_table_def
        names_table_0 cong: let_weak_cong)

lemma by_offset_8_bytes:
  "by_offset_8 = ''/8              0                       0       0         `'' @ [CHR 0x0A]"
  by code_simp

lemma by_offset_8_length: "length by_offset_8 = 60"
  by (simp add: by_offset_8_bytes)

lemma by_offset_8_slices:
  "py_slice by_offset_8 0 16 = ''/8              ''"
  "py_slice by_offset_8 16 28 = ''0           ''"
  "py_slice by_offset_8 28 34 = ''      ''"
  "py_slice by_offset_8 34 40 = ''      ''"
  "py_slice by_offset_8 40 48 = ''0       ''"
  "py_slice by_offset_8 48 58 = ''0         ''"
  "py_slice by_offset_8 58 60 = ''`'' @ [CHR 0x0A]"
  "py_slice by_offset_8 60 60 = []"
  by (simp_all add: by_offset_8_bytes py_slice_def slice_bound_def)

lemma names_table_8:
  "read_cstring (Some 8) \<lparr>data = [CHR ''f'', CHR ''o'', CHR ''o'', CHR ''.'', CHR ''o'', CHR ''b'', CHR ''j'', CHR 0x00, CHR ''b'', CHR ''a'', CHR ''r'', CHR ''.'', CHR ''o'', CHR ''b'', CHR ''j'', CHR 0x00], cursor = 0\<rparr>
     = Inr (''bar.obj'', \<lparr>data = [CHR ''f'', CHR ''o'', CHR ''o'', CHR ''.'', CHR ''o'', CHR ''b'', CHR ''j'', CHR 0x00, CHR ''b'', CHR ''a'', CHR ''r'', CHR ''.'', CHR ''o'', CHR ''b'', CHR ''j'', CHR 0x00], cursor = 16\<rparr>)"
  by (simp add: stream_defs cstring_end.simps cong: let_weak_cong)

lemma by_offset_8_member:
  "read_member py_int Map.empty \<lparr>data = by_offset_8, cursor = 0\<rparr> (Some names_table) =
     Inr (\<lparr>name = ''bar.obj'', date = 0, user_id = [], group_id = [], mode = 0, size_m = 0,
           content = \<lparr>data = [], cursor = 0\<rparr>\<rparr>,
          \<lparr>data = by_offset_8, cursor = 60\<rparr>,
          Some (names_table\<lparr>content := \<lparr>data = [CHR ''f'', CHR ''o'', CHR ''o'', CHR ''.'', CHR ''o'', CHR ''b'', CHR ''j'', CHR 0x00, CHR ''b'', CHR ''a'', CHR ''r'', CHR ''.'', CHR ''o'', CHR ''b'', CHR ''j'', CHR 0x00], cursor = 16\<rparr>\<rparr>))"
  by (simp add: member_defs fixture_defs py_int_facts by_offset_8_slices by_offset_8_length names_table_def
        names_table_8 cong: let_weak_cong)

section \<open>Long names: the filename lookup member\<close>

lemma bind_eq_Inr: "bind m f = Inr y \<longleftrightarrow> (\<exists>x. m = Inr x \<and> f x = Inr y)"
  by (cases m) simp_all

lemma read_filename_by_offset:
  assumes "read_ascii (Some 16) None ds = Inr (raw, ds1)"
      and "rstrip_space raw = CHR ''/'' # num"
      and "num \<noteq> []" and "\<forall>c\<in>set num. is_digit c"
      and "int_of num = Inr off"
  shows "read_filename int_of ms ds fmo =
     (case fmo of
        None \<Rightarrow> Inl (ArchiveReadException (NoFilenameLookupMember (CHR ''/'' # num)))
      | Some fm \<Rightarrow>
          bind (read_cstring (Some off) (content fm)) (\<lambda>(resolved, c).
          if resolved \<in> dom ms then Inl (ArchiveReadException (FilenameTwice resolved))
          else Inr (resolved, ds1, Some (fm\<lparr>content := c\<rparr>))))"
proof -
  have nd: "\<not> is_digit CHR ''/''"
    by (simp add: is_digit_def byte_in_def)
  have "last num \<in> set num" using assms(3) by simp
  then have l: "last num \<noteq> CHR ''/''" using assms(4) nd by metis
  have ne: "num \<noteq> ''/''" using assms(4) nd by auto
  show ?thesis
    using assms(3) l ne
    by (cases fmo; cases "read_cstring (Some off) (content (the fmo))")
       (auto simp: read_filename_def assms(1,2,5) Let_def split: prod.splits)
qed

text \<open>
  C5. Let the 16-byte name field of a member header, trimmed of trailing spaces, be a
  slash followed by a decimal number that Python's \<open>int\<close> reads as \<open>off\<close>. If
  \<open>_read_member\<close> is given a filename lookup member and returns a member, that member's
  name is the null-terminated string that \<open>read_cstring\<close> reads at offset \<open>off\<close> of the
  lookup member's content (whose cursor is left after the terminator). If no lookup member
  has been recorded, \<open>_read_member\<close> raises ArchiveReadException, and \<open>load\<close> fails with
  it: for the first header after the magic number, and in the catalog loop for any later
  header reached while no lookup member is recorded.
\<close>

theorem long_name_resolution:
  assumes "read_ascii (Some 16) None ds = Inr (raw, ds1)"
      and "rstrip_space raw = CHR ''/'' # num"
      and "num \<noteq> []" and "\<forall>c\<in>set num. is_digit c"
      and "int_of num = Inr off"
  shows "(read_member int_of ms ds (Some fm) = Inr (m, ds', fm') \<longrightarrow>
            (\<exists>c. read_cstring (Some off) (content fm) = Inr (name m, c)
                 \<and> fm' = Some (fm\<lparr>content := c\<rparr>)))
       \<and> read_member int_of ms ds None
            = Inl (ArchiveReadException (NoFilenameLookupMember (CHR ''/'' # num)))
       \<and> (read_bytes (Some 8) None \<lparr>data = d, cursor = 0\<rparr> = Inr (''!<arch>'' @ [CHR 0x0A], ds) \<longrightarrow>
            load int_of self d
              = Some (Inl (ArchiveReadException (NoFilenameLookupMember (CHR ''/'' # num)))))
       \<and> (more_to_read ds \<and> data_stream st = ds \<and> filename_member st = None \<longrightarrow>
            catalog int_of st
              = Some (Inl (ArchiveReadException (NoFilenameLookupMember (CHR ''/'' # num)))))"
proof (intro conjI impI)
  note rf = read_filename_by_offset[where int_of = int_of and off = off, OF assms]
  show none: "read_member int_of ms ds None
            = Inl (ArchiveReadException (NoFilenameLookupMember (CHR ''/'' # num)))" for ms
    by (simp add: read_member_def rf)
  show "\<exists>c. read_cstring (Some off) (content fm) = Inr (name m, c) \<and> fm' = Some (fm\<lparr>content := c\<rparr>)"
    if "read_member int_of ms ds (Some fm) = Inr (m, ds', fm')"
    using that
    by (auto simp: read_member_def rf bind_eq_Inr Let_def split: if_splits prod.splits)
  show "load int_of self d
              = Some (Inl (ArchiveReadException (NoFilenameLookupMember (CHR ''/'' # num))))"
    if "read_bytes (Some 8) None \<lparr>data = d, cursor = 0\<rparr> = Inr (''!<arch>'' @ [CHR 0x0A], ds)"
    using that by (simp add: load_def none)
  show "catalog int_of st
              = Some (Inl (ArchiveReadException (NoFilenameLookupMember (CHR ''/'' # num))))"
    if "more_to_read ds \<and> data_stream st = ds \<and> filename_member st = None"
    using that by (subst catalog.simps) (simp add: none)
qed

text \<open>
  C5 on the specification's example: with the lookup content
  \<open>foo.obj 0x00 bar.obj 0x00\<close>, the name fields \<open>/8\<close> and \<open>/0\<close> resolve to \<open>bar.obj\<close>
  and \<open>foo.obj\<close>, and without a lookup member the read fails.
\<close>

theorem long_name_resolution_witness:
  "read_ascii (Some 16) None \<lparr>data = by_offset_8, cursor = 0\<rparr>
      = Inr (''/8              '', \<lparr>data = by_offset_8, cursor = 16\<rparr>)
   \<and> rstrip_space ''/8              '' = ''/8'' \<and> is_digit CHR ''8'' \<and> py_int ''8'' = Inr 8
   \<and> (\<exists>m ds fm. read_member py_int Map.empty \<lparr>data = by_offset_8, cursor = 0\<rparr> (Some names_table)
                     = Inr (m, ds, fm)
                 \<and> name m = ''bar.obj''
                 \<and> (\<exists>c. read_cstring (Some 8) (content names_table) = Inr (''bar.obj'', c)))
   \<and> read_member py_int Map.empty \<lparr>data = by_offset_8, cursor = 0\<rparr> None
      = Inl (ArchiveReadException (NoFilenameLookupMember ''/8''))
   \<and> (\<exists>m ds fm. read_member py_int Map.empty \<lparr>data = by_offset_0, cursor = 0\<rparr> (Some names_table)
                     = Inr (m, ds, fm)
                 \<and> name m = ''foo.obj''
                 \<and> (\<exists>c. read_cstring (Some 0) (content names_table) = Inr (''foo.obj'', c)))"
proof -
  have h8: "read_ascii (Some 16) None \<lparr>data = by_offset_8, cursor = 0\<rparr>
      = Inr (''/8              '', \<lparr>data = by_offset_8, cursor = 16\<rparr>)"
    by (simp add: fixture_defs by_offset_8_slices cong: let_weak_cong)
  have h0: "read_ascii (Some 16) None \<lparr>data = by_offset_0, cursor = 0\<rparr>
      = Inr (''/0              '', \<lparr>data = by_offset_0, cursor = 16\<rparr>)"
    by (simp add: fixture_defs by_offset_0_slices cong: let_weak_cong)
  have s8: "rstrip_space ''/8              '' = CHR ''/'' # ''8''"
    and s0: "rstrip_space ''/0              '' = CHR ''/'' # ''0''"
    by (simp_all add: rstrip_space_def)
  have d8: "\<forall>c\<in>set ''8''. is_digit c" and d0: "\<forall>c\<in>set ''0''. is_digit c"
    by (simp_all add: is_digit_def byte_in_def)
  have i8: "py_int ''8'' = Inr 8" and i0: "py_int ''0'' = Inr 0"
    by (simp_all add: py_int_facts)
  note t8 = long_name_resolution[where int_of = py_int and off = 8 and ms = Map.empty and fm = names_table
              and m = "\<lparr>name = ''bar.obj'', date = 0, user_id = [], group_id = [], mode = 0, size_m = 0,
                        content = \<lparr>data = [], cursor = 0\<rparr>\<rparr>"
              and ds' = "\<lparr>data = by_offset_8, cursor = 60\<rparr>"
              and fm' = "Some (names_table\<lparr>content := \<lparr>data = [CHR ''f'', CHR ''o'', CHR ''o'', CHR ''.'', CHR ''o'', CHR ''b'', CHR ''j'', CHR 0x00, CHR ''b'', CHR ''a'', CHR ''r'', CHR ''.'', CHR ''o'', CHR ''b'', CHR ''j'', CHR 0x00], cursor = 16\<rparr>\<rparr>)",
              OF h8 s8 _ d8 i8]
  note t0 = long_name_resolution[where int_of = py_int and off = 0 and ms = Map.empty and fm = names_table
              and m = "\<lparr>name = ''foo.obj'', date = 0, user_id = [], group_id = [], mode = 0, size_m = 0,
                        content = \<lparr>data = [], cursor = 0\<rparr>\<rparr>"
              and ds' = "\<lparr>data = by_offset_0, cursor = 60\<rparr>"
              and fm' = "Some (names_table\<lparr>content := \<lparr>data = [CHR ''f'', CHR ''o'', CHR ''o'', CHR ''.'', CHR ''o'', CHR ''b'', CHR ''j'', CHR 0x00, CHR ''b'', CHR ''a'', CHR ''r'', CHR ''.'', CHR ''o'', CHR ''b'', CHR ''j'', CHR 0x00], cursor = 8\<rparr>\<rparr>)",
              OF h0 s0 _ d0 i0]
  show ?thesis
    using t8 t0 d8 by (simp add: h8 s8 i8 by_offset_8_member by_offset_0_member) blast
qed

section \<open>The symbol index\<close>

lemma symbol_loop_step:
  assumes "symbol_loop tbl mos sns smm = Inr smm'" and "more_to_read mos"
  obtains off mos' nm sns' mn where
    "read_big_endian_dword None mos = Inr (off, mos')"
    "read_cstring None sns = Inr (nm, sns')"
    "tbl off = Some mn" "nm \<notin> dom smm"
    "symbol_loop tbl mos' sns' (smm(nm \<mapsto> mn)) = Inr smm'"
  using assms
  by (subst (asm) symbol_loop.simps) (auto split: sum.splits option.splits if_splits)

lemma symbol_loop_done:
  "\<not> more_to_read mos \<Longrightarrow> symbol_loop tbl mos sns smm = Inr smm"
  by (subst symbol_loop.simps) simp

lemma py_slice_nonneg:
  "0 \<le> i \<Longrightarrow> i \<le> j \<Longrightarrow> py_slice xs i j = take (nat j - nat i) (drop (nat i) xs)"
  by (auto simp: py_slice_def slice_bound_def min_def Let_def)

lemma cstring_end_errors: "cstring_end d i = Inl e \<Longrightarrow> e = IndexError"
proof (induction d i rule: cstring_end.induct)
  case (1 d i)
  show ?case
  proof (cases "py_index d i")
    case (Inl e')
    then have "e' = IndexError"
      by (auto simp: py_index_def Let_def split: if_splits)
    with Inl "1.prems" show ?thesis
      by (subst (asm) cstring_end.simps) simp
  next
    case (Inr b)
    then have lt: "i < int (length d)"
      by (auto simp: py_index_def Let_def split: if_splits)
    show ?thesis
    proof (cases "b = CHR 0x00")
      case True
      with Inr "1.prems" show ?thesis
        by (subst (asm) cstring_end.simps) simp
    next
      case False
      with Inr lt "1.prems" have "cstring_end d (i + 1) = Inl e"
        by (subst (asm) cstring_end.simps) simp
      with "1.IH"[OF Inr False] lt show ?thesis by simp
    qed
  qed
qed

lemma read_cstring_errors:
  "read_cstring position s = Inl e \<Longrightarrow>
   e = IndexError \<or> e = BufferStreamIndexError NoMoreToRead \<or> e = UnicodeDecodeError"
  by (cases "cstring_end (data (seek position s)) (cursor (seek position s))")
     (auto simp: read_cstring_def Let_def decode_utf8_def dest: cstring_end_errors
           split: if_splits)

lemma read_dword_ok:
  assumes "0 \<le> cursor s" and "drop (nat (cursor s)) (data s) = a # b # c # d # r"
  shows "read_big_endian_dword None s = Inr (parse_big_endian [a, b, c, d], s\<lparr>cursor := cursor s + 4\<rparr>)"
    and "more_to_read s"
proof -
  have "py_slice (data s) (cursor s) (cursor s + 4) = take 4 (drop (nat (cursor s)) (data s))"
    using assms(1) by (simp add: py_slice_nonneg nat_add_distrib)
  then have sl: "py_slice (data s) (cursor s) (cursor s + 4) = [a, b, c, d]"
    by (simp add: assms(2))
  show "read_big_endian_dword None s = Inr (parse_big_endian [a, b, c, d], s\<lparr>cursor := cursor s + 4\<rparr>)"
    by (simp add: read_big_endian_dword_def read_bytes_def seek_def new_cursor_def Let_def sl)
  have "nat (cursor s) < length (data s)"
    using assms(2) by (cases "nat (cursor s) < length (data s)") simp_all
  then show "more_to_read s"
    using assms(1) by (simp add: more_to_read_def)
qed

lemma dwords_cases:
  assumes "off \<in> set (dwords xs)"
  obtains a b c d r where "xs = a # b # c # d # r"
  using assms by (cases xs rule: dwords.cases) auto

lemma symbol_loop_absent:
  "0 \<le> cursor mos \<Longrightarrow> off \<in> set (dwords (drop (nat (cursor mos)) (data mos))) \<Longrightarrow> tbl off = None \<Longrightarrow>
   \<exists>e. symbol_loop tbl mos sns smm = Inl e \<and>
       ((\<exists>off'. e = KeyError off' \<and> off' \<in> set (dwords (drop (nat (cursor mos)) (data mos)))
                \<and> tbl off' = None)
        \<or> e = ArchiveReadException SymbolInMultipleMembers
        \<or> e = IndexError \<or> e = BufferStreamIndexError NoMoreToRead \<or> e = UnicodeDecodeError)"
proof (induction tbl mos sns smm rule: symbol_loop.induct)
  case (1 tbl mos sns smm)
  from "1.prems"(2) obtain a b c d r where
    ys: "drop (nat (cursor mos)) (data mos) = a # b # c # d # r"
    by (rule dwords_cases)
  let ?o = "parse_big_endian [a, b, c, d]"
  let ?mos = "mos\<lparr>cursor := cursor mos + 4\<rparr>"
  note rd = read_dword_ok[OF "1.prems"(1) ys]
  have r: "drop (nat (cursor ?mos)) (data ?mos) = r"
  proof -
    have "drop (nat (cursor mos + 4)) (data mos) = drop 4 (drop (nat (cursor mos)) (data mos))"
      using "1.prems"(1) by (simp add: nat_add_distrib add.commute)
    then show ?thesis by (simp add: ys)
  qed
  show ?case
  proof (cases "read_cstring None sns")
    case (Inl e)
    then have "symbol_loop tbl mos sns smm = Inl e"
      by (subst symbol_loop.simps) (simp add: rd)
    with read_cstring_errors[OF Inl] show ?thesis by auto
  next
    case (Inr x)
    obtain nm sns' where x: "x = (nm, sns')" by (cases x)
    show ?thesis
    proof (cases "tbl ?o")
      case None
      then have "symbol_loop tbl mos sns smm = Inl (KeyError ?o)"
        by (subst symbol_loop.simps) (simp add: rd Inr x)
      then show ?thesis using None by (simp add: ys)
    next
      case (Some mn)
      show ?thesis
      proof (cases "nm \<in> dom smm")
        case True
        then have "symbol_loop tbl mos sns smm = Inl (ArchiveReadException SymbolInMultipleMembers)"
          using Some by (subst symbol_loop.simps) (simp add: rd Inr x)
        then show ?thesis by simp
      next
        case False
        have step: "symbol_loop tbl mos sns smm = symbol_loop tbl ?mos sns' (smm(nm \<mapsto> mn))"
          using Some False by (subst symbol_loop.simps) (simp add: rd Inr x)
        have ne: "off \<noteq> ?o" using Some "1.prems"(3) by auto
        have mem: "off \<in> set (dwords (drop (nat (cursor ?mos)) (data ?mos)))"
          unfolding r using "1.prems"(2) ne by (simp add: ys)
        have c0: "0 \<le> cursor ?mos" using "1.prems"(1) by simp
        have sub: "set (dwords (drop (nat (cursor ?mos)) (data ?mos)))
                     \<subseteq> set (dwords (drop (nat (cursor mos)) (data mos)))"
          unfolding r by (auto simp: ys)
        from "1.IH"[OF rd(2) rd(1) refl Inr[unfolded x] refl Some False c0 mem "1.prems"(3)] sub
        show ?thesis
          unfolding step by blast
      qed
    qed
  qed
qed

lemma parse_index_absent:
  assumes "off \<in> set (dwords (py_slice idx 4 (4 + 4 * parse_big_endian (py_slice idx 0 4))))"
      and "tbl off = None"
  shows "\<exists>e. parse_index \<lparr>data = idx, cursor = 0\<rparr> tbl smm = Inl e \<and>
       ((\<exists>off'. e = KeyError off'
               \<and> off' \<in> set (dwords (py_slice idx 4 (4 + 4 * parse_big_endian (py_slice idx 0 4))))
               \<and> tbl off' = None)
        \<or> e = ArchiveReadException SymbolInMultipleMembers
        \<or> e = IndexError \<or> e = BufferStreamIndexError NoMoreToRead \<or> e = UnicodeDecodeError)"
proof -
  let ?count = "parse_big_endian (py_slice idx 0 4)"
  let ?offs = "py_slice idx 4 (4 + 4 * ?count)"
  from assms(1) have "?offs \<noteq> []" by auto
  then have "4 < length idx"
    by (auto simp: py_slice_def slice_bound_def Let_def split: if_splits)
  then have len: "length (py_slice idx 0 4) = 4"
    by (simp add: py_slice_def slice_bound_def)
  have pi: "parse_index \<lparr>data = idx, cursor = 0\<rparr> tbl smm
      = symbol_loop tbl \<lparr>data = ?offs, cursor = 0\<rparr>
          \<lparr>data = py_slice idx (4 + 4 * ?count) (int (length idx)), cursor = 0\<rparr> smm"
    by (simp add: parse_index_def read_big_endian_dword_def read_bytes_def read_sub_stream_def
          seek_def new_cursor_def Let_def len)
  show ?thesis
    using symbol_loop_absent[of "\<lparr>data = ?offs, cursor = 0\<rparr>" off tbl
            "\<lparr>data = py_slice idx (4 + 4 * ?count) (int (length idx)), cursor = 0\<rparr>" smm]
          assms
    by (simp add: pi)
qed

lemma read_member_content_cursor:
  "read_member int_of ms ds fmo = Inr (m, ds', fm') \<Longrightarrow> cursor (content m) = 0"
  by (auto simp: read_member_def bind_eq_Inr read_sub_stream_def Let_def
           split: if_splits prod.splits)

text \<open>
  C7, as stated, fails in what it says of the error. In \<open>archive_no_terminator\<close> the
  index names the offset 999, which is in no table, and \<open>load\<close> ends with the built-in
  IndexError of the symbol-name read, which comes before the lookup and carries nothing
  at all. In \<open>archive_absent_offset\<close>, where the name is terminated, \<open>load\<close> ends with
  the built-in KeyError whose only content is the number 999: no archive error, no word
  of what was expected.
\<close>

theorem unresolved_offset_error_counterexample:
  "load py_int reset archive_no_terminator = Some (Inl IndexError)
   \<and> load py_int reset archive_absent_offset = Some (Inl (KeyError 999))"
  by (simp add: archive_no_terminator_load archive_absent_offset_load)

text \<open>
  C7, amended. Let \<open>load\<close> get as far as step 2: the magic number matches, the first
  member is the index \<open>/\<close>, and the catalog loop has ended with the offset table
  \<open>member_name_by_offset st\<close>. If some offset that the index holds (one of the \<open>count\<close>
  dwords after the count) is not a key of that table, then \<open>load\<close> fails: no symbol is
  skipped. The error is one of these and nothing else: KeyError carrying an offset of the
  index that is absent from the table; or the error that ended the loop before the lookup
  was reached, namely a failed read of a symbol name (IndexError, BufferStreamIndexError,
  UnicodeDecodeError) or ArchiveReadException for a symbol named twice.
\<close>

theorem unresolved_offset_is_fatal:
  assumes "read_bytes (Some 8) None \<lparr>data = d, cursor = 0\<rparr> = Inr (''!<arch>'' @ [CHR 0x0A], ds0)"
      and "read_member int_of (members self) ds0 None = Inr (index_member, ds, fm)"
      and "name index_member = ''/''"
      and "catalog int_of
             \<lparr>self_members = members self, is_first_member_after_index = True,
              member_name_by_offset = Map.empty, filename_member = None,
              data_stream = ds\<rparr> = Some (Inr st)"
      and "off \<in> set (dwords (py_slice (data (content index_member)) 4
                   (4 + 4 * parse_big_endian (py_slice (data (content index_member)) 0 4))))"
      and "member_name_by_offset st off = None"
  shows "\<exists>e. load int_of self d = Some (Inl e) \<and>
       ((\<exists>off'. e = KeyError off'
               \<and> off' \<in> set (dwords (py_slice (data (content index_member)) 4
                     (4 + 4 * parse_big_endian (py_slice (data (content index_member)) 0 4))))
               \<and> member_name_by_offset st off' = None)
        \<or> e = ArchiveReadException SymbolInMultipleMembers
        \<or> e = IndexError \<or> e = BufferStreamIndexError NoMoreToRead \<or> e = UnicodeDecodeError)"
proof -
  have c: "content index_member = \<lparr>data = data (content index_member), cursor = 0\<rparr>"
    using read_member_content_cursor[OF assms(2)] by (cases "content index_member") simp
  from parse_index_absent[where tbl = "member_name_by_offset st"
         and idx = "data (content index_member)" and smm = "symbol_member_map self",
         OF assms(5,6)]
  obtain e where
    e: "parse_index (content index_member) (member_name_by_offset st) (symbol_member_map self) = Inl e"
    and kind: "(\<exists>off'. e = KeyError off'
               \<and> off' \<in> set (dwords (py_slice (data (content index_member)) 4
                     (4 + 4 * parse_big_endian (py_slice (data (content index_member)) 0 4))))
               \<and> member_name_by_offset st off' = None)
        \<or> e = ArchiveReadException SymbolInMultipleMembers
        \<or> e = IndexError \<or> e = BufferStreamIndexError NoMoreToRead \<or> e = UnicodeDecodeError"
    using c by metis
  have "load int_of self d = Some (Inl e)"
    by (simp add: load_def assms(1,2,3,4) e)
  with kind show ?thesis by blast
qed

text \<open>
  The amended C7 on \<open>archive_absent_offset\<close> (KeyError 999) and on
  \<open>archive_no_terminator\<close> (IndexError).
\<close>

theorem unresolved_offset_is_fatal_witness:
  "read_bytes (Some 8) None \<lparr>data = archive_absent_offset, cursor = 0\<rparr>
     = Inr (''!<arch>'' @ [CHR 0x0A], \<lparr>data = archive_absent_offset, cursor = 8\<rparr>)
   \<and> read_member py_int (members reset) \<lparr>data = archive_absent_offset, cursor = 8\<rparr> None
     = Inr (stored_member ''/'' ([CHR 0x00, CHR 0x00, CHR 0x00, CHR 0x01, CHR 0x00, CHR 0x00, CHR 0x03, CHR 0xE7, CHR ''s'', CHR ''y'', CHR ''m'', CHR 0x00]),
            \<lparr>data = archive_absent_offset, cursor = 80\<rparr>, None)
   \<and> name (stored_member ''/'' ([CHR 0x00, CHR 0x00, CHR 0x00, CHR 0x01, CHR 0x00, CHR 0x00, CHR 0x03, CHR 0xE7, CHR ''s'', CHR ''y'', CHR ''m'', CHR 0x00])) = ''/''
   \<and> catalog py_int
       \<lparr>self_members = members reset, is_first_member_after_index = True,
        member_name_by_offset = Map.empty, filename_member = None,
        data_stream = \<lparr>data = archive_absent_offset, cursor = 80\<rparr>\<rparr>
     = Some (Inr
       \<lparr>self_members = [''a.obj'' \<mapsto> \<lparr>name = ''a.obj'', date = 0, user_id = [], group_id = [], mode = 0, size_m = 2, content = \<lparr>data = ''AA'', cursor = 0\<rparr>\<rparr>], is_first_member_after_index = False,
        member_name_by_offset = [140 \<mapsto> ''a.obj''], filename_member = None,
        data_stream = \<lparr>data = archive_absent_offset, cursor = 202\<rparr>\<rparr>)
   \<and> 999 \<in> set (dwords (py_slice (data (content (stored_member ''/'' ([CHR 0x00, CHR 0x00, CHR 0x00, CHR 0x01, CHR 0x00, CHR 0x00, CHR 0x03, CHR 0xE7, CHR ''s'', CHR ''y'', CHR ''m'', CHR 0x00])))) 4
                   (4 + 4 * parse_big_endian (py_slice (data (content (stored_member ''/'' ([CHR 0x00, CHR 0x00, CHR 0x00, CHR 0x01, CHR 0x00, CHR 0x00, CHR 0x03, CHR 0xE7, CHR ''s'', CHR ''y'', CHR ''m'', CHR 0x00])))) 0 4))))
   \<and> member_name_by_offset
       \<lparr>self_members = [''a.obj'' \<mapsto> \<lparr>name = ''a.obj'', date = 0, user_id = [], group_id = [], mode = 0, size_m = 2, content = \<lparr>data = ''AA'', cursor = 0\<rparr>\<rparr>], is_first_member_after_index = False,
        member_name_by_offset = [140 \<mapsto> ''a.obj''], filename_member = None,
        data_stream = \<lparr>data = archive_absent_offset, cursor = 202\<rparr>\<rparr> 999 = None
   \<and> load py_int reset archive_absent_offset = Some (Inl (KeyError 999))
   \<and> load py_int reset archive_no_terminator = Some (Inl IndexError)"
proof -
  have pa: "read_bytes (Some 8) None \<lparr>data = archive_absent_offset, cursor = 0\<rparr>
              = Inr (''!<arch>'' @ [CHR 0x0A], \<lparr>data = archive_absent_offset, cursor = 8\<rparr>)"
    by (simp add: read_bytes_def seek_def new_cursor_def Let_def archive_absent_offset_slices)
  have pb: "read_member py_int (members reset) \<lparr>data = archive_absent_offset, cursor = 8\<rparr> None
              = Inr (stored_member ''/'' ([CHR 0x00, CHR 0x00, CHR 0x00, CHR 0x01, CHR 0x00, CHR 0x00, CHR 0x03, CHR 0xE7, CHR ''s'', CHR ''y'', CHR ''m'', CHR 0x00]),
                     \<lparr>data = archive_absent_offset, cursor = 80\<rparr>, None)"
    by (simp add: archive_absent_offset_member_8 stored_member_def)
  have pc: "name (stored_member ''/'' ([CHR 0x00, CHR 0x00, CHR 0x00, CHR 0x01, CHR 0x00, CHR 0x00, CHR 0x03, CHR 0xE7, CHR ''s'', CHR ''y'', CHR ''m'', CHR 0x00])) = ''/''"
    by (simp add: stored_member_def)
  have pd: "catalog py_int
       \<lparr>self_members = members reset, is_first_member_after_index = True,
        member_name_by_offset = Map.empty, filename_member = None,
        data_stream = \<lparr>data = archive_absent_offset, cursor = 80\<rparr>\<rparr>
     = Some (Inr
       \<lparr>self_members = [''a.obj'' \<mapsto> \<lparr>name = ''a.obj'', date = 0, user_id = [], group_id = [], mode = 0, size_m = 2, content = \<lparr>data = ''AA'', cursor = 0\<rparr>\<rparr>], is_first_member_after_index = False,
        member_name_by_offset = [140 \<mapsto> ''a.obj''], filename_member = None,
        data_stream = \<lparr>data = archive_absent_offset, cursor = 202\<rparr>\<rparr>)"
    by (simp add: reset_def archive_absent_offset_catalog)
  have pe: "999 \<in> set (dwords (py_slice (data (content (stored_member ''/'' ([CHR 0x00, CHR 0x00, CHR 0x00, CHR 0x01, CHR 0x00, CHR 0x00, CHR 0x03, CHR 0xE7, CHR ''s'', CHR ''y'', CHR ''m'', CHR 0x00])))) 4
                   (4 + 4 * parse_big_endian (py_slice (data (content (stored_member ''/'' ([CHR 0x00, CHR 0x00, CHR 0x00, CHR 0x01, CHR 0x00, CHR 0x00, CHR 0x03, CHR 0xE7, CHR ''s'', CHR ''y'', CHR ''m'', CHR 0x00])))) 0 4))))"
    by (simp add: stored_member_def py_slice_def slice_bound_def parse_big_endian_def)
  have pf: "member_name_by_offset
       \<lparr>self_members = [''a.obj'' \<mapsto> \<lparr>name = ''a.obj'', date = 0, user_id = [], group_id = [], mode = 0, size_m = 2, content = \<lparr>data = ''AA'', cursor = 0\<rparr>\<rparr>], is_first_member_after_index = False,
        member_name_by_offset = [140 \<mapsto> ''a.obj''], filename_member = None,
        data_stream = \<lparr>data = archive_absent_offset, cursor = 202\<rparr>\<rparr> 999 = None"
    by simp
  note pt = unresolved_offset_is_fatal[where int_of = py_int, OF pa pb pc pd pe pf]
  have qa: "read_bytes (Some 8) None \<lparr>data = archive_no_terminator, cursor = 0\<rparr>
              = Inr (''!<arch>'' @ [CHR 0x0A], \<lparr>data = archive_no_terminator, cursor = 8\<rparr>)"
    by (simp add: read_bytes_def seek_def new_cursor_def Let_def archive_no_terminator_slices)
  have qb: "read_member py_int (members reset) \<lparr>data = archive_no_terminator, cursor = 8\<rparr> None
              = Inr (stored_member ''/'' ([CHR 0x00, CHR 0x00, CHR 0x00, CHR 0x01, CHR 0x00, CHR 0x00, CHR 0x03, CHR 0xE7, CHR ''s'', CHR ''y'', CHR ''m'', CHR ''b'']),
                     \<lparr>data = archive_no_terminator, cursor = 80\<rparr>, None)"
    by (simp add: archive_no_terminator_member_8 stored_member_def)
  have qc: "name (stored_member ''/'' ([CHR 0x00, CHR 0x00, CHR 0x00, CHR 0x01, CHR 0x00, CHR 0x00, CHR 0x03, CHR 0xE7, CHR ''s'', CHR ''y'', CHR ''m'', CHR ''b''])) = ''/''"
    by (simp add: stored_member_def)
  have qd: "catalog py_int
       \<lparr>self_members = members reset, is_first_member_after_index = True,
        member_name_by_offset = Map.empty, filename_member = None,
        data_stream = \<lparr>data = archive_no_terminator, cursor = 80\<rparr>\<rparr>
     = Some (Inr
       \<lparr>self_members = [''a.obj'' \<mapsto> \<lparr>name = ''a.obj'', date = 0, user_id = [], group_id = [], mode = 0, size_m = 2, content = \<lparr>data = ''AA'', cursor = 0\<rparr>\<rparr>], is_first_member_after_index = False,
        member_name_by_offset = [140 \<mapsto> ''a.obj''], filename_member = None,
        data_stream = \<lparr>data = archive_no_terminator, cursor = 202\<rparr>\<rparr>)"
    by (simp add: reset_def archive_no_terminator_catalog)
  have qe: "999 \<in> set (dwords (py_slice (data (content (stored_member ''/'' ([CHR 0x00, CHR 0x00, CHR 0x00, CHR 0x01, CHR 0x00, CHR 0x00, CHR 0x03, CHR 0xE7, CHR ''s'', CHR ''y'', CHR ''m'', CHR ''b''])))) 4
                   (4 + 4 * parse_big_endian (py_slice (data (content (stored_member ''/'' ([CHR 0x00, CHR 0x00, CHR 0x00, CHR 0x01, CHR 0x00, CHR 0x00, CHR 0x03, CHR 0xE7, CHR ''s'', CHR ''y'', CHR ''m'', CHR ''b''])))) 0 4))))"
    by (simp add: stored_member_def py_slice_def slice_bound_def parse_big_endian_def)
  have qf: "member_name_by_offset
       \<lparr>self_members = [''a.obj'' \<mapsto> \<lparr>name = ''a.obj'', date = 0, user_id = [], group_id = [], mode = 0, size_m = 2, content = \<lparr>data = ''AA'', cursor = 0\<rparr>\<rparr>], is_first_member_after_index = False,
        member_name_by_offset = [140 \<mapsto> ''a.obj''], filename_member = None,
        data_stream = \<lparr>data = archive_no_terminator, cursor = 202\<rparr>\<rparr> 999 = None"
    by simp
  note qt = unresolved_offset_is_fatal[where int_of = py_int, OF qa qb qc qd qe qf]
  show ?thesis
    using pt qt
    by (simp add: pa pb pc pd pe pf archive_absent_offset_load archive_no_terminator_load)
qed

section \<open>Symbols map to cataloged members\<close>

lemma ran_upd_subset: "ran (m(k \<mapsto> v)) \<subseteq> insert v (ran m)"
  by (auto simp: ran_def)

lemma catalog_preserves:
  assumes "catalog int_of st = Some (Inr st')" and "catalog_inv A st"
  shows "catalog_inv A st'"
proof -
  have "\<forall>st'. Inr st' = r \<longrightarrow> catalog_inv A st \<longrightarrow> catalog_inv A st'"
    if "catalog int_of st = Some r" for r
  proof (rule catalog.raw_induct
           [where P = "\<lambda>I st r. \<forall>st'. Inr st' = r \<longrightarrow> catalog_inv A st \<longrightarrow> catalog_inv A st'",
            OF _ that])
    fix f :: "(string \<Rightarrow> error + int) \<Rightarrow> catalog_state \<Rightarrow> (error + catalog_state) option"
      and I st r
    assume IH: "\<And>I st r. f I st = Some r
                  \<Longrightarrow> \<forall>st'. Inr st' = r \<longrightarrow> catalog_inv A st \<longrightarrow> catalog_inv A st'"
    assume body:
      "(if more_to_read (data_stream st) then
          (let file_offset = cursor (data_stream st) in
           case read_member I (self_members st) (data_stream st) (filename_member st) of
             Inl e \<Rightarrow> Some (Inl e)
           | Inr (member, ds, fm) \<Rightarrow>
               (let st = st\<lparr>data_stream := ds, filename_member := fm\<rparr> in
                if is_first_member_after_index st \<and> name member = ''/'' then
                  f I (st\<lparr>is_first_member_after_index := False\<rparr>)
                else
                  case (if is_first_member_after_index st
                        then print_stderr SecondIndexMissing else Inr ()) of
                    Inl e \<Rightarrow> Some (Inl e)
                  | Inr _ \<Rightarrow>
                      (let st = st\<lparr>is_first_member_after_index := False\<rparr> in
                       if name member = ''//'' then
                         (if filename_member st = None then
                            f I (st\<lparr>filename_member := Some member\<rparr>)
                          else
                            case print_stderr ExtraFilenameLookup of
                              Inl e \<Rightarrow> Some (Inl e)
                            | Inr _ \<Rightarrow> f I st)
                       else
                         f I
                           (st\<lparr>member_name_by_offset := (member_name_by_offset st)(file_offset \<mapsto> name member),
                               self_members := (self_members st)(name member \<mapsto> member)\<rparr>))))
        else Some (Inr st)) = Some r"
    show "\<forall>st'. Inr st' = r \<longrightarrow> catalog_inv A st \<longrightarrow> catalog_inv A st'"
    proof (intro allI impI)
      fix st' assume r: "Inr st' = r" and inv: "catalog_inv A st"
      show "catalog_inv A st'"
      proof (cases "more_to_read (data_stream st)")
        case False
        with body r inv show ?thesis by auto
      next
        case True
        show ?thesis
        proof (cases "read_member I (self_members st) (data_stream st) (filename_member st)")
          case (Inl e)
          with True body r show ?thesis by auto
        next
          case (Inr x)
          obtain member ds fm where x: "x = (member, ds, fm)" by (cases x) auto
          note ran = ran_upd_subset[of "member_name_by_offset st" "cursor (data_stream st)" "name member"]
          have "\<exists>st0. f I st0 = Some r \<and> catalog_inv A st0"
            using body True Inr x r[symmetric] inv ran
            by (simp add: Let_def print_stderr_def catalog_inv_def split: if_splits)
               (force+)
          then show ?thesis
            using IH r by blast
        qed
      qed
    qed
  qed
  with assms show ?thesis by blast
qed

lemma symbol_loop_ran:
  "symbol_loop tbl mos sns smm = Inr smm' \<Longrightarrow> ran smm \<subseteq> D \<Longrightarrow> ran tbl \<subseteq> D \<Longrightarrow> ran smm' \<subseteq> D"
proof (induction tbl mos sns smm rule: symbol_loop.induct)
  case (1 tbl mos sns smm)
  show ?case
  proof (cases "more_to_read mos")
    case False
    with "1.prems"(1,2) show ?thesis by (simp add: symbol_loop_done)
  next
    case True
    from "1.prems"(1) True obtain off mos' nm sns' mn where
      d: "read_big_endian_dword None mos = Inr (off, mos')" and
      c: "read_cstring None sns = Inr (nm, sns')" and
      t: "tbl off = Some mn" and fresh: "nm \<notin> dom smm" and
      rec: "symbol_loop tbl mos' sns' (smm(nm \<mapsto> mn)) = Inr smm'"
      by (rule symbol_loop_step)
    have "mn \<in> D" using t "1.prems"(3) by (auto simp: ran_def)
    then have "ran (smm(nm \<mapsto> mn)) \<subseteq> D"
      using "1.prems"(2) ran_upd_subset[of smm nm mn] by auto
    then show ?thesis
      by (rule "1.IH"[OF True d refl c refl t fresh rec _ "1.prems"(3)])
  qed
qed

lemma parse_index_ran:
  "parse_index c tbl smm = Inr smm' \<Longrightarrow> ran smm \<subseteq> D \<Longrightarrow> ran tbl \<subseteq> D \<Longrightarrow> ran smm' \<subseteq> D"
  by (auto simp: parse_index_def bind_eq_Inr Let_def split_beta dest: symbol_loop_ran)

lemma load_success:
  assumes "load int_of self d = Some (Inr self')"
  obtains index_member ds fm st where
    "read_member int_of (members self) \<lparr>data = d, cursor = 8\<rparr> None = Inr (index_member, ds, fm)"
    "name index_member = ''/''"
    "catalog int_of \<lparr>self_members = members self, is_first_member_after_index = True,
                     member_name_by_offset = Map.empty, filename_member = None,
                     data_stream = ds\<rparr> = Some (Inr st)"
    "parse_index (content index_member) (member_name_by_offset st) (symbol_member_map self)
       = Inr (symbol_member_map self')"
    "members self' = self_members st"
proof -
  have rb: "read_bytes (Some 8) None \<lparr>data = d, cursor = 0\<rparr> = Inr (m, s) \<Longrightarrow> s = \<lparr>data = d, cursor = 8\<rparr>" for m s
    by (auto simp: read_bytes_def seek_def new_cursor_def Let_def split: if_splits)
  show ?thesis
    using assms that
    by (auto simp: load_def bind_eq_Inr split: sum.splits if_splits option.splits prod.splits dest!: rb)
qed

text \<open>
  C6. If every value of \<open>symbol_member_map\<close> is a key of \<open>members\<close> when \<open>load\<close> is
  called (as after \<open>reset\<close>, where both are empty) and \<open>load\<close> completes without error,
  then every value of \<open>symbol_member_map\<close> is a key of \<open>members\<close> afterwards.
\<close>

theorem symbol_map_values_are_members:
  assumes "ran (symbol_member_map self) \<subseteq> dom (members self)"
      and "load int_of self d = Some (Inr self')"
  shows "ran (symbol_member_map self') \<subseteq> dom (members self')"
proof -
  from assms(2) obtain index_member ds fm st where
    "read_member int_of (members self) \<lparr>data = d, cursor = 8\<rparr> None = Inr (index_member, ds, fm)" and
    "name index_member = ''/''" and
    cat: "catalog int_of \<lparr>self_members = members self, is_first_member_after_index = True,
                     member_name_by_offset = Map.empty, filename_member = None,
                     data_stream = ds\<rparr> = Some (Inr st)" and
    idx: "parse_index (content index_member) (member_name_by_offset st) (symbol_member_map self)
       = Inr (symbol_member_map self')" and
    mem: "members self' = self_members st"
    by (rule load_success)
  have "catalog_inv (ran (symbol_member_map self)) st"
    by (rule catalog_preserves[OF cat]) (simp add: catalog_inv_def assms(1))
  then show ?thesis
    using parse_index_ran[OF idx, of "dom (self_members st)"]
    by (simp add: catalog_inv_def mem)
qed

text \<open>C6 on a fresh reader loading \<open>archive_ok\<close>.\<close>

theorem symbol_map_values_are_members_witness:
  "ran (symbol_member_map reset) \<subseteq> dom (members reset)
   \<and> load py_int reset archive_ok = Some (Inr archive_ok_reader)
   \<and> ran (symbol_member_map archive_ok_reader) \<subseteq> dom (members archive_ok_reader)"
  using symbol_map_values_are_members[of reset py_int archive_ok archive_ok_reader]
  by (simp add: archive_ok_load) (simp add: reset_def)

section \<open>Padding\<close>

text \<open>
  C1. \<open>archive_odd\<close> is well formed: \<open>a.obj\<close> has size 1, one newline pad byte follows
  its content, and the header of \<open>b.obj\<close> starts on the even offset 194. The claim says
  that \<open>load\<close> succeeds with the keys \<open>a.obj\<close> and \<open>b.obj\<close>. \<open>_read_member\<close> tests the
  parity of the cursor only after the 60 header bytes, so the pad byte after a content is
  never skipped: the next header is read from offset 193, the pad byte itself. Its name
  field then reads as a newline followed by \<open>b.obj\<close>, every later field is shifted by one
  byte, the terminator does not match, and the warning about it raises NameError: \<open>load\<close>
  fails.
\<close>

theorem load_skips_no_padding:
  "load py_int reset archive_odd = Some (Inl (NameError ''sys''))
   \<and> read_filename py_int [''a.obj'' \<mapsto> stored_member ''a.obj'' ''A'']
         \<lparr>data = archive_odd, cursor = 193\<rparr> None
       = Inr ([CHR 0x0A] @ ''b.obj'', \<lparr>data = archive_odd, cursor = 209\<rparr>, None)"
  by (simp add: archive_odd_load)
     (simp add: member_defs fixture_defs archive_odd_slices cong: let_weak_cong)

section \<open>Warnings\<close>

text \<open>
  C2. Each of the four anomalies is claimed to be reported and survived. Each report is
  \<open>print(..., file = sys.stderr)\<close> in a module that does not import \<open>sys\<close>, so each one
  ends \<open>load\<close> with NameError: a header terminator that is not \<open>0x60 0x0A\<close>, a pad byte
  that is not a newline, a missing second index, a second \<open>//\<close> member.
\<close>

theorem warnings_are_fatal:
  "load py_int reset archive_bad_terminator = Some (Inl (NameError ''sys''))
   \<and> load py_int reset archive_bad_padding = Some (Inl (NameError ''sys''))
   \<and> load py_int reset archive_no_second_index = Some (Inl (NameError ''sys''))
   \<and> load py_int reset archive_two_lookups = Some (Inl (NameError ''sys''))"
  by (simp add: archive_bad_terminator_load archive_bad_padding_load archive_no_second_index_load
        archive_two_lookups_load)

section \<open>Loading twice\<close>

text \<open>
  C3. A second \<open>load\<close> over the same buffer is claimed to clear the state of the first and
  to yield the same maps. \<open>load\<close> does not call \<open>reset\<close> (only \<open>__init__\<close> does): on the
  reader that has loaded \<open>archive_ok\<close>, loading \<open>archive_ok\<close> again finds \<open>a.obj\<close> in
  \<open>members\<close> and raises ArchiveReadException, "Filename appears in archive twice".
\<close>

theorem second_load_fails:
  "init py_int archive_ok = Some (Inr archive_ok_reader)
   \<and> load py_int reset archive_ok = Some (Inr archive_ok_reader)
   \<and> load py_int archive_ok_reader archive_ok
       = Some (Inl (ArchiveReadException (FilenameTwice ''a.obj'')))"
  by (simp add: archive_ok_load archive_ok_load_again init_def)

end
